theory Spec2Isabelle
  imports Complex_Main
begin

section \<open>Numbers\<close>

text \<open>
  The simulation computes with JavaScript numbers. The model keeps the one special value
  the source tests for, \<open>NaN\<close>, and takes every other number to be a real: arithmetic
  on finite values is exact (no rounding, no overflow to Infinity), \<open>NaN\<close> is
  absorbing for every operation, and every comparison with \<open>NaN\<close> is false.
\<close>

datatype number = NaN | Fin real

instantiation number :: "{plus, minus, times, inverse, ord}"
begin

fun plus_number :: "number \<Rightarrow> number \<Rightarrow> number" where
  "plus_number (Fin a) (Fin b) = Fin (a + b)"
| "plus_number _ _ = NaN"

fun minus_number :: "number \<Rightarrow> number \<Rightarrow> number" where
  "minus_number (Fin a) (Fin b) = Fin (a - b)"
| "minus_number _ _ = NaN"

fun times_number :: "number \<Rightarrow> number \<Rightarrow> number" where
  "times_number (Fin a) (Fin b) = Fin (a * b)"
| "times_number _ _ = NaN"

text \<open>
  A quotient by zero is Infinity or \<open>NaN\<close> in JavaScript; the model has no Infinity and
  gives \<open>NaN\<close>. The divisors of the step are \<open>2\<close> and \<open>length() || 1\<close>, never zero.
\<close>

fun divide_number :: "number \<Rightarrow> number \<Rightarrow> number" where
  "divide_number (Fin a) (Fin b) = (if b = 0 then NaN else Fin (a / b))"
| "divide_number _ _ = NaN"

fun inverse_number :: "number \<Rightarrow> number" where
  "inverse_number (Fin a) = (if a = 0 then NaN else Fin (1 / a))"
| "inverse_number NaN = NaN"

fun less_number :: "number \<Rightarrow> number \<Rightarrow> bool" where
  "less_number (Fin a) (Fin b) = (a < b)"
| "less_number _ _ = False"

fun less_eq_number :: "number \<Rightarrow> number \<Rightarrow> bool" where
  "less_eq_number (Fin a) (Fin b) = (a \<le> b)"
| "less_eq_number _ _ = False"

instance ..

end

fun isNaN :: "number \<Rightarrow> bool" where
  "isNaN NaN = True"
| "isNaN (Fin a) = False"

fun Math_min :: "number \<Rightarrow> number \<Rightarrow> number" where
  "Math_min (Fin a) (Fin b) = Fin (min a b)"
| "Math_min _ _ = NaN"

fun Math_max :: "number \<Rightarrow> number \<Rightarrow> number" where
  "Math_max (Fin a) (Fin b) = Fin (max a b)"
| "Math_max _ _ = NaN"

fun Math_abs :: "number \<Rightarrow> number" where
  "Math_abs (Fin a) = Fin \<bar>a\<bar>"
| "Math_abs NaN = NaN"

fun Math_sqrt :: "number \<Rightarrow> number" where
  "Math_sqrt (Fin a) = (if a < 0 then NaN else Fin (sqrt a))"
| "Math_sqrt NaN = NaN"

text \<open>\<open>Math.pow(a, 2)\<close>, the only use of \<open>Math.pow\<close> in the step.\<close>

definition Math_pow2 :: "number \<Rightarrow> number" where
  "Math_pow2 a = a * a"

fun Math_cos :: "number \<Rightarrow> number" where
  "Math_cos (Fin a) = Fin (cos a)"
| "Math_cos NaN = NaN"

fun Math_sin :: "number \<Rightarrow> number" where
  "Math_sin (Fin a) = Fin (sin a)"
| "Math_sin NaN = NaN"

text \<open>\<open>a || b\<close> on numbers: \<open>0\<close> and \<open>NaN\<close> are the falsy numbers.\<close>

fun or_else :: "number \<Rightarrow> number \<Rightarrow> number" where
  "or_else (Fin a) b = (if a = 0 then b else Fin a)"
| "or_else NaN b = b"

section \<open>The vector library\<close>

text \<open>
  \<open>Vector3\<close>, \<open>Euler\<close>, \<open>Quaternion\<close> and \<open>MathUtils.lerp\<close> belong to the three.js
  library; the operations the step calls are written out with the library's formulas.
  The Euler order is fixed to \<open>'YXZ'\<close>, as the component constructs it.
\<close>

datatype Vector3 = Vector3 (xc: number) (yc: number) (zc: number)

datatype Euler = Euler (rot_x: number) (rot_y: number) (rot_z: number)

datatype Quaternion = Quaternion (qx: number) (qy: number) (qz: number) (qw: number)

definition v_add :: "Vector3 \<Rightarrow> Vector3 \<Rightarrow> Vector3" where
  "v_add a b = Vector3 (xc a + xc b) (yc a + yc b) (zc a + zc b)"

definition v_sub :: "Vector3 \<Rightarrow> Vector3 \<Rightarrow> Vector3" where
  "v_sub a b = Vector3 (xc a - xc b) (yc a - yc b) (zc a - zc b)"

definition multiplyScalar :: "Vector3 \<Rightarrow> number \<Rightarrow> Vector3" where
  "multiplyScalar v s = Vector3 (xc v * s) (yc v * s) (zc v * s)"

definition divideScalar :: "Vector3 \<Rightarrow> number \<Rightarrow> Vector3" where
  "divideScalar v s = multiplyScalar v (Fin 1 / s)"

definition lengthSq :: "Vector3 \<Rightarrow> number" where
  "lengthSq v = xc v * xc v + yc v * yc v + zc v * zc v"

definition v_length :: "Vector3 \<Rightarrow> number" where
  "v_length v = Math_sqrt (lengthSq v)"

definition v_normalize :: "Vector3 \<Rightarrow> Vector3" where
  "v_normalize v = divideScalar v (or_else (v_length v) (Fin 1))"

definition distanceTo :: "Vector3 \<Rightarrow> Vector3 \<Rightarrow> number" where
  "distanceTo a b =
     (let dx = xc a - xc b; dy = yc a - yc b; dz = zc a - zc b
      in Math_sqrt (dx * dx + dy * dy + dz * dz))"

definition lerp :: "number \<Rightarrow> number \<Rightarrow> number \<Rightarrow> number" where
  "lerp a b t = (Fin 1 - t) * a + t * b"

definition setFromEuler :: "Euler \<Rightarrow> Quaternion" where
  "setFromEuler e =
     (let c1 = Math_cos (rot_x e / Fin 2); c2 = Math_cos (rot_y e / Fin 2);
          c3 = Math_cos (rot_z e / Fin 2);
          s1 = Math_sin (rot_x e / Fin 2); s2 = Math_sin (rot_y e / Fin 2);
          s3 = Math_sin (rot_z e / Fin 2)
      in Quaternion (s1 * c2 * c3 + c1 * s2 * s3)
                    (c1 * s2 * c3 - s1 * c2 * s3)
                    (c1 * c2 * s3 - s1 * s2 * c3)
                    (c1 * c2 * c3 + s1 * s2 * s3))"

definition applyQuaternion :: "Vector3 \<Rightarrow> Quaternion \<Rightarrow> Vector3" where
  "applyQuaternion v q =
     (let tx = Fin 2 * (qy q * zc v - qz q * yc v);
          ty = Fin 2 * (qz q * xc v - qx q * zc v);
          tz = Fin 2 * (qx q * yc v - qy q * xc v)
      in Vector3 (xc v + qw q * tx + qy q * tz - qz q * ty)
                 (yc v + qw q * ty + qz q * tx - qx q * tz)
                 (zc v + qw q * tz + qx q * ty - qy q * tx))"

section \<open>Data of the component\<close>

datatype ObstacleType = building | tree

record Obstacle =
  obs_type :: ObstacleType
  obs_position :: "number \<times> number \<times> number"
  obs_size :: "number \<times> number \<times> number"

datatype Status = FLYING | CRASHED | LANDED

record DroneState =
  ds_position :: Vector3
  ds_velocity :: Vector3
  ds_rotation :: Euler
  ds_throttle :: number
  ds_battery :: number
  ds_status :: Status
  ds_distanceToObjective :: "number option"

text \<open>The two callbacks of the component, recorded in the order the step invokes them.\<close>

datatype Event = onUpdateStats DroneState | onObjectiveReached

text \<open>The \<open>useRef\<close> cells the frame callback reads and writes.\<close>

record Refs =
  position :: Vector3
  velocity :: Vector3
  rotation :: Euler
  throttle :: number
  isCrashed :: bool
  lastStatsUpdate :: number

record Props =
  obstacles :: "Obstacle list"
  objectivePosition :: "(number \<times> number \<times> number) option"

text \<open>
  What one call of the frame callback receives: whether \<open>droneRef.current\<close> is set,
  the elapsed time \<open>delta\<close>, the clock reading \<open>state.clock.elapsedTime\<close> and the
  key table (a key never pressed reads as false).
\<close>

record Frame =
  mounted :: bool
  delta :: number
  elapsedTime :: number
  keys :: "string \<Rightarrow> bool"

section \<open>Physics constants\<close>

definition GRAVITY :: number where "GRAVITY = Fin 25"
definition THRUST_POWER :: number where "THRUST_POWER = Fin 65"
definition DRAG :: number where "DRAG = Fin 0.98"
definition ROTATION_SPEED :: number where "ROTATION_SPEED = Fin 2.5"
definition TILT_SPEED :: number where "TILT_SPEED = Fin 3.0"
definition MAX_TILT :: number where "MAX_TILT = Fin 0.6"
definition HOVER_THROTTLE :: number where "HOVER_THROTTLE = Fin 0.40"
definition DRONE_RADIUS :: number where "DRONE_RADIUS = Fin 0.5"
definition PROP_COLLISION_RADIUS :: number where "PROP_COLLISION_RADIUS = Fin 0.15"
definition THROTTLE_RESPONSE_SPEED :: number where "THROTTLE_RESPONSE_SPEED = Fin 2.0"

definition PROP_OFFSETS :: "Vector3 list" where
  "PROP_OFFSETS =
     [Vector3 (Fin 0.8) (Fin 0) (Fin 0.8),
      Vector3 (Fin (- 0.8)) (Fin 0) (Fin 0.8),
      Vector3 (Fin 0.8) (Fin 0) (Fin (- 0.8)),
      Vector3 (Fin (- 0.8)) (Fin 0) (Fin (- 0.8))]"

definition zero3 :: Vector3 where
  "zero3 = Vector3 (Fin 0) (Fin 0) (Fin 0)"

section \<open>The frame callback\<close>

subsection \<open>Safety guard and crashed state\<close>

definition nan_guard :: "Refs \<Rightarrow> Refs" where
  "nan_guard s =
     (let s1 = (if isNaN (xc (position s))
                then s\<lparr>position := Vector3 (Fin 0) (Fin 5) (Fin 0)\<rparr> else s)
      in if isNaN (xc (velocity s1)) then s1\<lparr>velocity := zero3\<rparr> else s1)"

definition crashed_stats :: "Refs \<Rightarrow> DroneState" where
  "crashed_stats s =
     \<lparr>ds_position = position s, ds_velocity = velocity s, ds_rotation = rotation s,
      ds_throttle = Fin 0, ds_battery = Fin 0, ds_status = CRASHED,
      ds_distanceToObjective = None\<rparr>"

definition crashed_logic :: "number \<Rightarrow> number \<Rightarrow> Refs \<Rightarrow> Refs \<times> Event list" where
  "crashed_logic dt now s =
     (let v = velocity s;
          v1 = Vector3 (xc v) (yc v - GRAVITY * dt) (zc v);
          p1 = v_add (position s) (multiplyScalar v1 dt);
          s1 = (if yc p1 < Fin 0.2
                then s\<lparr>position := Vector3 (xc p1) (Fin 0.2) (zc p1), velocity := zero3\<rparr>
                else s\<lparr>position := p1, velocity := v1\<rparr>)
      in if Fin 0.1 < now - lastStatsUpdate s1
         then (let s2 = s1\<lparr>lastStatsUpdate := now\<rparr> in (s2, [onUpdateStats (crashed_stats s2)]))
         else (s1, []))"

subsection \<open>1. Inputs\<close>

definition isMovingInput :: "(string \<Rightarrow> bool) \<Rightarrow> bool" where
  "isMovingInput k = (k ''KeyW'' \<or> k ''KeyS'' \<or> k ''KeyA'' \<or> k ''KeyD'')"

definition yaw_input :: "(string \<Rightarrow> bool) \<Rightarrow> number \<Rightarrow> number \<Rightarrow> number" where
  "yaw_input k dt ry =
     (let r1 = (if k ''ArrowLeft'' \<or> k ''KeyQ'' then ry + ROTATION_SPEED * dt else ry)
      in if k ''ArrowRight'' \<or> k ''KeyE'' then r1 - ROTATION_SPEED * dt else r1)"

definition throttle_input :: "(string \<Rightarrow> bool) \<Rightarrow> number \<Rightarrow> number \<Rightarrow> number" where
  "throttle_input k dt th =
     (if k ''ArrowUp'' \<or> k ''Space''
      then Math_min (th + dt * THROTTLE_RESPONSE_SPEED) (Fin 1)
      else if k ''ArrowDown'' \<or> k ''ShiftLeft'' \<or> k ''ShiftRight''
      then Math_max (th - dt * THROTTLE_RESPONSE_SPEED) (Fin 0)
      else th)"

definition targetPitch :: "(string \<Rightarrow> bool) \<Rightarrow> number" where
  "targetPitch k =
     (let t = (if k ''KeyW'' then Fin 0 - MAX_TILT else Fin 0)
      in if k ''KeyS'' then MAX_TILT else t)"

definition targetRoll :: "(string \<Rightarrow> bool) \<Rightarrow> number" where
  "targetRoll k =
     (let t = (if k ''KeyD'' then Fin 0 - MAX_TILT else Fin 0)
      in if k ''KeyA'' then MAX_TILT else t)"

definition takeoff_assist :: "(string \<Rightarrow> bool) \<Rightarrow> number \<Rightarrow> number \<Rightarrow> number \<Rightarrow> number" where
  "takeoff_assist k dt py th =
     (if isMovingInput k \<and> py < Fin 1.0 \<and> th < HOVER_THROTTLE
      then lerp th (HOVER_THROTTLE + Fin 0.05) (dt * Fin 3)
      else th)"

definition handle_inputs :: "(string \<Rightarrow> bool) \<Rightarrow> number \<Rightarrow> Refs \<Rightarrow> Refs" where
  "handle_inputs k dt s =
     (let r = rotation s;
          ry = yaw_input k dt (rot_y r);
          th = takeoff_assist k dt (yc (position s)) (throttle_input k dt (throttle s));
          rx = lerp (rot_x r) (targetPitch k) (dt * TILT_SPEED);
          rz = lerp (rot_z r) (targetRoll k) (dt * TILT_SPEED)
      in s\<lparr>rotation := Euler rx ry rz, throttle := th\<rparr>)"

subsection \<open>2. Physics\<close>

definition integrate_velocity :: "number \<Rightarrow> Quaternion \<Rightarrow> Refs \<Rightarrow> Vector3" where
  "integrate_velocity dt quat s =
     (let upVector = applyQuaternion (Vector3 (Fin 0) (Fin 1) (Fin 0)) quat;
          thrustForce = multiplyScalar upVector (throttle s * THRUST_POWER);
          gravityForce = Vector3 (Fin 0) (Fin 0 - GRAVITY) (Fin 0);
          acceleration = v_add thrustForce gravityForce
      in multiplyScalar (v_add (velocity s) (multiplyScalar acceleration dt)) DRAG)"

subsection \<open>3. Collision detection\<close>

text \<open>
  3a. Ground physics. The result is the candidate position, the velocity, the attitude,
  the crash latch and the local \<open>collision\<close> flag, in the order the block assigns them.
\<close>

definition ground_physics ::
  "(string \<Rightarrow> bool) \<Rightarrow> number \<Rightarrow> Vector3 \<Rightarrow> Vector3 \<Rightarrow> Euler \<Rightarrow> bool
     \<Rightarrow> Vector3 \<times> Vector3 \<times> Euler \<times> bool \<times> bool" where
  "ground_physics k dt nextPosition v r crashed =
     (if yc nextPosition < Fin 0.5 then
        (let np = Vector3 (xc nextPosition) (Fin 0.5) (zc nextPosition);
             v1 = Vector3 (xc v * Fin 0.8) (Fin 0) (zc v * Fin 0.8);
             r1 = (if \<not> isMovingInput k
                   then Euler (lerp (rot_x r) (Fin 0) (dt * Fin 5)) (rot_y r)
                              (lerp (rot_z r) (Fin 0) (dt * Fin 5))
                   else r)
         in if Fin 10 < Math_abs (yc v1)
            then (np, v1, r1, True, True)
            else (np, v1, r1, crashed, False))
      else (nextPosition, v, r, crashed, False))"

text \<open>3b. Propeller world positions.\<close>

definition propPoints :: "Quaternion \<Rightarrow> Vector3 \<Rightarrow> Vector3 list" where
  "propPoints quat nextPosition =
     map (\<lambda>offset. v_add (applyQuaternion offset quat) nextPosition) PROP_OFFSETS"

text \<open>3c. Propeller ground check: the loop stops at the first tip below \<open>0.1\<close>.\<close>

fun prop_ground_check :: "Vector3 list \<Rightarrow> bool" where
  "prop_ground_check [] = False"
| "prop_ground_check (p # ps) = (if yc p < Fin 0.1 then True else prop_ground_check ps)"

text \<open>3d. Obstacle collision: the test of one point against one obstacle.\<close>

definition building_hit :: "Obstacle \<Rightarrow> Vector3 \<Rightarrow> number \<Rightarrow> bool" where
  "building_hit obs point radius =
     (case (obs_size obs, obs_position obs) of ((sw, sh, sd), (px, py, pz)) \<Rightarrow>
        (let halfW = sw / Fin 2 + radius;
             halfH = sh / Fin 2 + radius;
             halfD = sd / Fin 2 + radius;
             dx = Math_abs (xc point - px);
             dy = Math_abs (yc point - py);
             dz = Math_abs (zc point - pz)
         in dx < halfW \<and> dy < halfH \<and> dz < halfD))"

definition tree_hit :: "Obstacle \<Rightarrow> Vector3 \<Rightarrow> number \<Rightarrow> bool" where
  "tree_hit obs point radius =
     (case (obs_size obs, obs_position obs) of ((sw, sh, sd), (px, py, pz)) \<Rightarrow>
        (let treeRadius = Fin 1.5 + radius;
             distXZ = Math_sqrt (Math_pow2 (xc point - px) + Math_pow2 (zc point - pz))
         in distXZ < treeRadius \<and> yc point < sh))"

definition point_hit :: "Obstacle \<Rightarrow> Vector3 \<times> number \<Rightarrow> bool" where
  "point_hit obs cp =
     (if obs_type obs = building then building_hit obs (fst cp) (snd cp)
      else tree_hit obs (fst cp) (snd cp))"

text \<open>The inner loop over the check points and the outer loop over the obstacles, each
  leaving at the first hit.\<close>

fun scan_points :: "Obstacle \<Rightarrow> (Vector3 \<times> number) list \<Rightarrow> bool" where
  "scan_points obs [] = False"
| "scan_points obs (cp # cps) = (if point_hit obs cp then True else scan_points obs cps)"

fun scan_obstacles :: "Obstacle list \<Rightarrow> (Vector3 \<times> number) list \<Rightarrow> bool" where
  "scan_obstacles [] cps = False"
| "scan_obstacles (obs # rest) cps =
     (if scan_points obs cps then True else scan_obstacles rest cps)"

definition checkPoints :: "Vector3 \<Rightarrow> Vector3 list \<Rightarrow> (Vector3 \<times> number) list" where
  "checkPoints nextPosition pps =
     (nextPosition, DRONE_RADIUS) # map (\<lambda>p. (p, PROP_COLLISION_RADIUS)) pps"

definition detect_collision :: "Obstacle list \<Rightarrow> Quaternion \<Rightarrow> Vector3 \<Rightarrow> bool \<Rightarrow> bool" where
  "detect_collision obss quat nextPosition collision =
     (let pps = propPoints quat nextPosition;
          c1 = (if \<not> collision then prop_ground_check pps else collision)
      in if \<not> c1 then scan_obstacles obss (checkPoints nextPosition pps) else c1)"

subsection \<open>Crash transition\<close>

definition crash_position :: "Vector3 \<Rightarrow> Vector3 \<Rightarrow> Vector3" where
  "crash_position p v =
     (if Fin 0.1 < lengthSq v
      then v_sub p (multiplyScalar (v_normalize v) (Fin 1.5))
      else Vector3 (xc p) (yc p + Fin 0.5) (zc p))"

subsection \<open>4. Objective logic and 7. statistics\<close>

definition distanceToObj :: "(number \<times> number \<times> number) option \<Rightarrow> Vector3 \<Rightarrow> number option" where
  "distanceToObj objective p =
     (case objective of None \<Rightarrow> None
      | Some (ox, oy, oz) \<Rightarrow> Some (distanceTo p (Vector3 ox oy oz)))"

definition objective_events :: "number option \<Rightarrow> Event list" where
  "objective_events d =
     (case d of None \<Rightarrow> [] | Some distance \<Rightarrow> if distance < Fin 4.0 then [onObjectiveReached] else [])"

definition flying_stats :: "Refs \<Rightarrow> number option \<Rightarrow> DroneState" where
  "flying_stats s d =
     \<lparr>ds_position = position s, ds_velocity = velocity s, ds_rotation = rotation s,
      ds_throttle = throttle s, ds_battery = Fin 85, ds_status = FLYING,
      ds_distanceToObjective = d\<rparr>"

subsection \<open>The flying branch and the whole callback\<close>

text \<open>
  Sections 1, 2 and 3a: the cells after input handling, integration and ground physics,
  with the attitude quaternion, the candidate position and the \<open>collision\<close> flag.
\<close>

definition predict :: "(string \<Rightarrow> bool) \<Rightarrow> number \<Rightarrow> Refs
    \<Rightarrow> Refs \<times> Quaternion \<times> Vector3 \<times> bool" where
  "predict k dt s0 =
     (let s1 = handle_inputs k dt s0;
          quat = setFromEuler (rotation s1);
          v1 = integrate_velocity dt quat s1;
          nextPosition = v_add (position s1) (multiplyScalar v1 dt)
      in case ground_physics k dt nextPosition v1 (rotation s1) (isCrashed s1) of
           (np, v2, r2, crashed, collision0) \<Rightarrow>
             (s1\<lparr>velocity := v2, rotation := r2, isCrashed := crashed\<rparr>, quat, np, collision0))"

definition flying_logic :: "Props \<Rightarrow> (string \<Rightarrow> bool) \<Rightarrow> number \<Rightarrow> number \<Rightarrow> Refs
    \<Rightarrow> Refs \<times> Event list" where
  "flying_logic pr k dt now s0 =
     (case predict k dt s0 of (s2, quat, np, collision0) \<Rightarrow>
        (let collision = detect_collision (obstacles pr) quat np collision0
         in if collision \<and> \<not> isCrashed s2 then
              (let s3 = s2\<lparr>isCrashed := True,
                           position := crash_position (position s2) (velocity s2),
                           velocity := zero3\<rparr>
               in (s3, [onUpdateStats (crashed_stats s3)]))
            else
              (let s3 = s2\<lparr>position := np\<rparr>;
                   d = distanceToObj (objectivePosition pr) (position s3);
                   reached = objective_events d
               in if Fin 0.1 < now - lastStatsUpdate s3
                  then (let s4 = s3\<lparr>lastStatsUpdate := now\<rparr>
                        in (s4, reached @ [onUpdateStats (flying_stats s4 d)]))
                  else (s3, reached))))"

text \<open>
  The callback registered with \<open>useFrame\<close>. The camera follow and the propeller spin
  write only to the scene graph and are left out; the cells of \<open>Refs\<close> are all the
  state the physics reads.
\<close>

definition useFrame :: "Props \<Rightarrow> Frame \<Rightarrow> Refs \<Rightarrow> Refs \<times> Event list" where
  "useFrame pr f s =
     (if \<not> mounted f then (s, [])
      else
        (let dt = Math_min (delta f) (Fin 0.1);
             now = elapsedTime f;
             s1 = nan_guard s
         in if isCrashed s1 then crashed_logic dt now s1
            else flying_logic pr (keys f) dt now s1))"

text \<open>A session: the callback run on a sequence of frames, the events concatenated.\<close>

fun run_frames :: "Props \<Rightarrow> Frame list \<Rightarrow> Refs \<Rightarrow> Refs \<times> Event list" where
  "run_frames pr [] s = (s, [])"
| "run_frames pr (f # fs) s =
     (case useFrame pr f s of (s1, es1) \<Rightarrow>
        (case run_frames pr fs s1 of (s2, es2) \<Rightarrow> (s2, es1 @ es2)))"

text \<open>The initial values of the cells.\<close>

definition initial_refs :: Refs where
  "initial_refs =
     \<lparr>position = Vector3 (Fin 0) (Fin 2) (Fin 0), velocity = zero3,
      rotation = Euler (Fin 0) (Fin 0) (Fin 0), throttle = Fin 0,
      isCrashed = False, lastStatsUpdate = Fin 0\<rparr>"

text \<open>
  The condition under which section 4 invokes \<open>onObjectiveReached\<close>, as a predicate of
  the props and the committed position.
\<close>

definition within_capture :: "Props \<Rightarrow> Vector3 \<Rightarrow> bool" where
  "within_capture pr p =
     (case objectivePosition pr of None \<Rightarrow> False
      | Some (ox, oy, oz) \<Rightarrow> distanceTo p (Vector3 ox oy oz) < Fin 4.0)"

text \<open>
  The receiver of \<open>onObjectiveReached\<close> in the application component, as a function of
  its \<open>missionComplete\<close> state.
\<close>

definition handleObjectiveReached :: "bool \<Rightarrow> bool" where
  "handleObjectiveReached missionComplete =
     (if \<not> missionComplete then True else missionComplete)"

text \<open>States all of whose position, velocity, attitude and throttle values are numbers.\<close>

definition finite3 :: "Vector3 \<Rightarrow> bool" where
  "finite3 v = (\<not> isNaN (xc v) \<and> \<not> isNaN (yc v) \<and> \<not> isNaN (zc v))"

definition finite_refs :: "Refs \<Rightarrow> bool" where
  "finite_refs s =
     (finite3 (position s) \<and> finite3 (velocity s)
      \<and> \<not> isNaN (rot_x (rotation s)) \<and> \<not> isNaN (rot_y (rotation s))
      \<and> \<not> isNaN (rot_z (rotation s)) \<and> \<not> isNaN (throttle s))"

section \<open>Concrete inputs\<close>

text \<open>A mounted frame with elapsed time \<open>d\<close>, clock reading \<open>t\<close> and the keys \<open>ks\<close> held.\<close>

definition frame_of :: "real \<Rightarrow> real \<Rightarrow> string list \<Rightarrow> Frame" where
  "frame_of d t ks = \<lparr>mounted = True, delta = Fin d, elapsedTime = Fin t, keys = (\<lambda>c. c \<in> set ks)\<rparr>"

definition empty_world :: Props where
  "empty_world = \<lparr>obstacles = [], objectivePosition = None\<rparr>"

definition wreck :: Refs where
  "wreck = initial_refs\<lparr>isCrashed := True\<rparr>"

text \<open>A dive at \<open>60\<close> units per second from altitude \<open>5\<close>, throttle closed.\<close>

definition diving :: Refs where
  "diving = initial_refs\<lparr>position := Vector3 (Fin 0) (Fin 5) (Fin 0),
                          velocity := Vector3 (Fin 0) (Fin (- 60)) (Fin 0)\<rparr>"

text \<open>States with a single \<open>NaN\<close> component, outside the \<open>x\<close> axis.\<close>

definition nan_altitude :: Refs where
  "nan_altitude = initial_refs\<lparr>position := Vector3 (Fin 0) NaN (Fin 0)\<rparr>"

definition nan_drift :: Refs where
  "nan_drift = initial_refs\<lparr>velocity := Vector3 (Fin 0) (Fin 0) NaN\<rparr>"

text \<open>An objective \<open>4.1\<close> below the spawn point, and a frame of \<open>0.1\<close> seconds, no key held.\<close>

definition beacon_world :: Props where
  "beacon_world = \<lparr>obstacles = [], objectivePosition = Some (Fin 0, Fin (- 2.1), Fin 0)\<rparr>"

definition tick :: Frame where
  "tick = frame_of 0.1 1 []"

text \<open>A world of obstacles without objective; a tree near the spawn point, tall and short.\<close>

definition world_of :: "Obstacle list \<Rightarrow> Props" where
  "world_of obss = \<lparr>obstacles = obss, objectivePosition = None\<rparr>"

definition tall_tree :: Obstacle where
  "tall_tree = \<lparr>obs_type = tree, obs_position = (Fin 1.9, Fin 0, Fin 0),
                 obs_size = (Fin 1.5, Fin 4, Fin 1.5)\<rparr>"

definition short_tree :: Obstacle where
  "short_tree = \<lparr>obs_type = tree, obs_position = (Fin 1.9, Fin 0, Fin 0),
                  obs_size = (Fin 1.5, Fin 1, Fin 1.5)\<rparr>"

text \<open>
  A block floating above the ground with a drone creeping up to it from below, and a low
  hangar with a drone descending on it.
\<close>

definition floating_block :: Obstacle where
  "floating_block = \<lparr>obs_type = building, obs_position = (Fin 0, Fin 10, Fin 0),
                      obs_size = (Fin 10, Fin 10, Fin 10)\<rparr>"

definition rising :: Refs where
  "rising = initial_refs\<lparr>position := Vector3 (Fin 0) (Fin 4.48) (Fin 0),
                          velocity := Vector3 (Fin 0) (Fin 0.3) (Fin 0),
                          throttle := Fin (5 / 13)\<rparr>"

definition hangar :: Obstacle where
  "hangar = \<lparr>obs_type = building, obs_position = (Fin 0, Fin 1, Fin 0),
              obs_size = (Fin 10, Fin 2, Fin 10)\<rparr>"

definition descending :: Refs where
  "descending = initial_refs\<lparr>position := Vector3 (Fin 0) (Fin 3) (Fin 0),
                              velocity := Vector3 (Fin 0) (Fin (- 10)) (Fin 0)\<rparr>"

text \<open>A drone drifting sideways, and a frame with no elapsed time.\<close>

definition drifting :: Refs where
  "drifting = initial_refs\<lparr>velocity := Vector3 (Fin 1) (Fin 0) (Fin 0)\<rparr>"

definition still :: Frame where
  "still = frame_of 0 1 []"

section \<open>Unfolding rules\<close>

lemmas number_defs = GRAVITY_def THRUST_POWER_def DRAG_def ROTATION_SPEED_def TILT_SPEED_def
  MAX_TILT_def HOVER_THROTTLE_def DRONE_RADIUS_def PROP_COLLISION_RADIUS_def
  THROTTLE_RESPONSE_SPEED_def PROP_OFFSETS_def zero3_def

lemmas vector_defs = v_add_def v_sub_def multiplyScalar_def divideScalar_def lengthSq_def
  v_length_def v_normalize_def distanceTo_def lerp_def setFromEuler_def applyQuaternion_def
  Math_pow2_def

lemmas input_defs = isMovingInput_def yaw_input_def throttle_input_def targetPitch_def
  targetRoll_def takeoff_assist_def handle_inputs_def

lemmas step_defs = useFrame_def nan_guard_def crashed_logic_def crashed_stats_def
  flying_logic_def predict_def integrate_velocity_def ground_physics_def detect_collision_def
  propPoints_def checkPoints_def point_hit_def building_hit_def tree_hit_def
  crash_position_def distanceToObj_def objective_events_def flying_stats_def

lemmas input_values = frame_of_def empty_world_def initial_refs_def wreck_def diving_def
  nan_altitude_def nan_drift_def beacon_world_def tick_def world_of_def tall_tree_def
  short_tree_def floating_block_def rising_def hangar_def descending_def drifting_def
  still_def

section \<open>Frame lemmas\<close>

lemma nan_guard_isCrashed: "isCrashed (nan_guard s) = isCrashed s"
  by (simp add: nan_guard_def Let_def)

lemma nan_guard_throttle: "throttle (nan_guard s) = throttle s"
  by (simp add: nan_guard_def Let_def)

lemma crashed_logic_isCrashed: "isCrashed (fst (crashed_logic dt now s)) = isCrashed s"
  by (simp add: crashed_logic_def Let_def)

lemma crashed_logic_throttle: "throttle (fst (crashed_logic dt now s)) = throttle s"
  by (simp add: crashed_logic_def Let_def)

lemma predict_cases: "\<exists>s2 quat np c0. predict k dt s = (s2, quat, np, c0)"
  by (cases "predict k dt s") auto

lemma predict_frame:
  assumes "predict k dt s = (s2, quat, np, c0)"
  shows "throttle s2 = takeoff_assist k dt (yc (position s)) (throttle_input k dt (throttle s))"
    and "position s2 = position s"
    and "lastStatsUpdate s2 = lastStatsUpdate s"
  using assms by (auto simp add: predict_def handle_inputs_def Let_def split: prod.splits)

lemma flying_logic_fst:
  assumes "predict k dt s = (s2, quat, np, c0)"
  shows "fst (flying_logic pr k dt now s) =
     (if detect_collision (obstacles pr) quat np c0 \<and> \<not> isCrashed s2
      then s2\<lparr>isCrashed := True, position := crash_position (position s2) (velocity s2),
              velocity := zero3\<rparr>
      else if Fin 0.1 < now - lastStatsUpdate s2
      then s2\<lparr>position := np, lastStatsUpdate := now\<rparr>
      else s2\<lparr>position := np\<rparr>)"
  using assms by (simp add: flying_logic_def Let_def)

section \<open>The crash latch\<close>

lemma useFrame_keeps_crashed: "isCrashed s \<Longrightarrow> isCrashed (fst (useFrame pr f s))"
  by (simp add: useFrame_def Let_def nan_guard_isCrashed crashed_logic_isCrashed)

lemma run_frames_keeps_crashed: "isCrashed s \<Longrightarrow> isCrashed (fst (run_frames pr fs s))"
proof (induction fs arbitrary: s)
  case Nil
  then show ?case by simp
next
  case (Cons f fs)
  have "isCrashed (fst (useFrame pr f s))"
    using Cons.prems by (rule useFrame_keeps_crashed)
  then have "isCrashed (fst (run_frames pr fs (fst (useFrame pr f s))))"
    by (rule Cons.IH)
  then show ?case
    by (cases "useFrame pr f s"; cases "run_frames pr fs (fst (useFrame pr f s))") simp
qed

text \<open>
  C1. A call of the frame callback that starts with the latch \<open>isCrashed\<close> set ends with
  it set, whatever the props, the frame (elapsed time, clock, keys, mounted or not) and
  the other cells are; hence no sequence of frames of a session brings a crashed drone
  back to flying.
\<close>

theorem crashed_is_latched:
  assumes "isCrashed s"
  shows "isCrashed (fst (useFrame pr f s)) \<and> isCrashed (fst (run_frames pr fs s))"
  using assms by (simp add: useFrame_keeps_crashed run_frames_keeps_crashed)

theorem crashed_is_latched_witness:
  "isCrashed wreck
   \<and> isCrashed (fst (useFrame empty_world (frame_of 0.1 1 [''Space'']) wreck))
   \<and> isCrashed (fst (run_frames empty_world
        [frame_of 0.016 1 [''Space''], frame_of 5 6 [''KeyW'']] wreck))"
proof -
  have c: "isCrashed wreck" by (simp add: wreck_def)
  show ?thesis
    using c crashed_is_latched [OF c, of empty_world "frame_of 0.1 1 [''Space'']"
        "[frame_of 0.016 1 [''Space''], frame_of 5 6 [''KeyW'']]"]
    by simp
qed

section \<open>The throttle bound\<close>

lemma flying_logic_throttle:
  "throttle (fst (flying_logic pr k dt now s)) =
     takeoff_assist k dt (yc (position s)) (throttle_input k dt (throttle s))"
proof -
  obtain s2 quat np c0 where p: "predict k dt s = (s2, quat, np, c0)"
    using predict_cases by blast
  show ?thesis
    by (simp add: flying_logic_fst [OF p] predict_frame(1) [OF p])
qed

lemma throttle_input_bounded:
  assumes "0 \<le> t" "t \<le> 1" "0 \<le> e"
  shows "\<exists>t'. throttle_input k (Fin e) (Fin t) = Fin t' \<and> 0 \<le> t' \<and> t' \<le> 1"
  using assms by (simp add: throttle_input_def THROTTLE_RESPONSE_SPEED_def)

lemma takeoff_assist_bounded:
  assumes "0 \<le> t" "t \<le> 1" "0 \<le> e" "e \<le> 1 / 10"
  shows "\<exists>t'. takeoff_assist k (Fin e) py (Fin t) = Fin t' \<and> 0 \<le> t' \<and> t' \<le> 1"
proof (cases "isMovingInput k \<and> py < Fin 1.0 \<and> Fin t < HOVER_THROTTLE")
  case False
  then show ?thesis using assms by (auto simp add: takeoff_assist_def)
next
  case True
  then have lt: "t < 4 / 10" by (simp add: HOVER_THROTTLE_def)
  have eq: "takeoff_assist k (Fin e) py (Fin t) = Fin ((1 - e * 3) * t + e * 3 * (45 / 100))"
    using True by (simp add: takeoff_assist_def lerp_def HOVER_THROTTLE_def)
  have a: "0 \<le> (1 - e * 3) * t" using assms by simp
  have b: "0 \<le> e * 3 * (45 / 100)" using assms by simp
  have c: "(1 - e * 3) * t \<le> t"
    using assms by (simp add: mult_left_le_one_le)
  have d: "e * 3 * (45 / 100) \<le> 3 / 10 * (45 / 100)" using assms by simp
  show ?thesis unfolding eq using a b c d lt by auto
qed

text \<open>
  C2. From a state whose throttle lies in \<open>[0, 1]\<close>, under any key table, any props and a
  non-negative elapsed time, the throttle after the call lies in \<open>[0, 1]\<close>: the increase
  ramp, the decrease ramp and the takeoff assist keep the bound (as do the crashed branch
  and an unmounted frame, which leave the throttle alone).
\<close>

theorem throttle_stays_in_unit_interval:
  assumes "throttle s = Fin t" and "0 \<le> t" and "t \<le> 1"
    and "delta f = Fin d" and "0 \<le> d"
  shows "\<exists>t'. throttle (fst (useFrame pr f s)) = Fin t' \<and> 0 \<le> t' \<and> t' \<le> 1"
proof (cases "mounted f \<and> \<not> isCrashed s")
  case False
  then show ?thesis
    using assms
    by (auto simp add: useFrame_def Let_def nan_guard_isCrashed crashed_logic_throttle
        nan_guard_throttle)
next
  case True
  define e where "e = min d (1 / 10)"
  have e: "0 \<le> e" "e \<le> 1 / 10" using assms by (simp_all add: e_def)
  obtain t1 where t1: "throttle_input (keys f) (Fin e) (Fin t) = Fin t1" "0 \<le> t1" "t1 \<le> 1"
    using throttle_input_bounded [OF assms(2,3) e(1)] by blast
  obtain t2 where t2:
    "takeoff_assist (keys f) (Fin e) (yc (position (nan_guard s))) (Fin t1) = Fin t2"
    "0 \<le> t2" "t2 \<le> 1"
    using takeoff_assist_bounded [OF t1(2,3) e] by blast
  have "throttle (fst (useFrame pr f s)) = Fin t2"
    using True assms(1,4) t1(1) t2(1)
    by (simp add: useFrame_def Let_def nan_guard_isCrashed flying_logic_throttle
        nan_guard_throttle e_def)
  then show ?thesis using t2 by blast
qed

theorem throttle_stays_in_unit_interval_witness:
  "throttle initial_refs = Fin 0 \<and> delta (frame_of 0.016 1 [''ArrowUp'', ''KeyW'']) = Fin 0.016
   \<and> (\<exists>t'. throttle (fst (useFrame empty_world (frame_of 0.016 1 [''ArrowUp'', ''KeyW''])
                initial_refs)) = Fin t' \<and> 0 \<le> t' \<and> t' \<le> 1)"
  using throttle_stays_in_unit_interval
    [of initial_refs 0 "frame_of 0.016 1 [''ArrowUp'', ''KeyW'']" "0.016" empty_world]
  by (simp add: initial_refs_def frame_of_def)

section \<open>Hard landing\<close>

text \<open>
  The ground block sets \<open>velocity.y\<close> to zero before the hard-landing check reads it, so
  the check never fires: the block returns the latch as it found it and no collision.
\<close>

lemma ground_physics_never_flags:
  "snd (snd (snd (ground_physics k dt np v r c))) = (c, False)"
  by (simp add: ground_physics_def Let_def)

text \<open>
  C3 (the code departs from the claim). The drone dives from altitude \<open>5\<close> at \<open>60\<close>
  units per second with the throttle closed. In one frame of \<open>0.1\<close> seconds the
  integrated vertical velocity is \<open>-61.25\<close>, far beyond the hard-landing threshold of
  \<open>10\<close>, and the candidate altitude falls below the ground clearance, so the ground block
  runs and clamps the altitude to \<open>0.5\<close>. The claim asks for status Crashed; the
  callback leaves the drone flying, at rest on the ground.
\<close>

theorem hard_landing_goes_undetected:
  "\<not> isCrashed diving
   \<and> integrate_velocity (Fin 0.1) (setFromEuler (rotation diving)) diving
       = Vector3 (Fin 0) (Fin (- 61.25)) (Fin 0)
   \<and> predict (keys tick) (Fin 0.1) diving
       = (diving\<lparr>velocity := zero3\<rparr>, Quaternion (Fin 0) (Fin 0) (Fin 0) (Fin 1),
          Vector3 (Fin 0) (Fin 0.5) (Fin 0), False)
   \<and> fst (useFrame empty_world tick diving)
       = diving\<lparr>position := Vector3 (Fin 0) (Fin 0.5) (Fin 0), velocity := zero3,
                 lastStatsUpdate := Fin 1\<rparr>
   \<and> \<not> isCrashed (fst (useFrame empty_world tick diving))"
  by (simp add: step_defs input_defs vector_defs number_defs input_values Let_def)

section \<open>The NaN guard\<close>

text \<open>
  C7 (the code departs from the claim). The guard tests \<open>position.x\<close> and
  \<open>velocity.x\<close> only. A state whose only \<open>NaN\<close> is \<open>position.y\<close> passes the guard, and
  after the call \<open>position.y\<close> is still \<open>NaN\<close>; a state whose only \<open>NaN\<close> is
  \<open>velocity.z\<close> passes it too, and after the call \<open>velocity.z\<close> is \<open>NaN\<close> and
  \<open>position.z\<close> has become \<open>NaN\<close> as well.
\<close>

theorem nan_outside_x_is_not_repaired:
  "yc (position (fst (useFrame empty_world (frame_of 0.016 1 []) nan_altitude))) = NaN
   \<and> zc (velocity (fst (useFrame empty_world (frame_of 0.016 1 []) nan_drift))) = NaN
   \<and> zc (position (fst (useFrame empty_world (frame_of 0.016 1 []) nan_drift))) = NaN"
  by (simp add: step_defs input_defs vector_defs number_defs input_values Let_def)

section \<open>The elapsed-time clamp\<close>

lemma Math_min_idem: "Math_min (Math_min a b) b = Math_min a b"
  by (cases a; cases b) simp_all

lemma clamped_square:
  fixes e :: real
  assumes "0 \<le> e" "e \<le> 1 / 10"
  shows "e * e \<le> 1 / 100" and "- (1 / 4) \<le> e * (e * (130 * e - 25))"
proof -
  have "e * e \<le> (1 / 10) * (1 / 10)" using assms by (intro mult_mono) simp_all
  then show sq: "e * e \<le> 1 / 100" by simp
  have "0 \<le> e * e" by simp
  have "e * e * (- 25) \<le> e * e * (130 * e - 25)"
    using assms by (intro mult_left_mono) simp_all
  moreover have "- (1 / 4) \<le> e * e * (- 25)" using sq by simp
  ultimately show "- (1 / 4) \<le> e * (e * (130 * e - 25))" by (simp add: mult.assoc)
qed

lemma climb_step:
  assumes "0 \<le> d"
  shows "fst (useFrame empty_world (frame_of d 1 [''ArrowUp'']) initial_refs)
     = \<lparr>position = Vector3 (Fin 0)
          (Fin (2 + (130 * min d 0.1 - 25) * min d 0.1 * 0.98 * min d 0.1)) (Fin 0),
        velocity = Vector3 (Fin 0) (Fin ((130 * min d 0.1 - 25) * min d 0.1 * 0.98)) (Fin 0),
        rotation = Euler (Fin 0) (Fin 0) (Fin 0), throttle = Fin (min d 0.1 * 2),
        isCrashed = False, lastStatsUpdate = Fin 1\<rparr>"
proof -
  have e: "0 \<le> min d (1 / 10)" "min d (1 / 10) \<le> 1 / 10" using assms by simp_all
  show ?thesis
    using e clamped_square(2) [OF e]
    by (simp add: step_defs input_defs vector_defs number_defs input_values Let_def)
qed

lemma fall_step:
  assumes "0 \<le> d"
  shows "fst (useFrame empty_world (frame_of d 1 []) wreck)
     = \<lparr>position = Vector3 (Fin 0) (Fin (2 - 25 * min d 0.1 * min d 0.1)) (Fin 0),
        velocity = Vector3 (Fin 0) (Fin (- (25 * min d 0.1))) (Fin 0),
        rotation = Euler (Fin 0) (Fin 0) (Fin 0), throttle = Fin 0,
        isCrashed = True, lastStatsUpdate = Fin 1\<rparr>"
proof -
  have e: "0 \<le> min d (1 / 10)" "min d (1 / 10) \<le> 1 / 10" using assms by simp_all
  show ?thesis
    using e clamped_square(1) [OF e]
    by (simp add: step_defs input_defs vector_defs number_defs input_values Let_def)
qed

lemma useFrame_unfold:
  "useFrame pr f s =
     (if \<not> mounted f then (s, [])
      else if isCrashed (nan_guard s)
      then crashed_logic (Math_min (delta f) (Fin 0.1)) (elapsedTime f) (nan_guard s)
      else flying_logic pr (keys f) (Math_min (delta f) (Fin 0.1)) (elapsedTime f)
             (nan_guard s))"
  by (simp add: useFrame_def Let_def)

text \<open>
  C8. The elapsed time every part of the callback computes with is
  \<open>Math.min(delta, 0.1)\<close>: the callback is the crashed branch or the flying branch (input
  shaping, integration, collision prediction) run at that value, which is never greater
  than \<open>0.1\<close>, and replacing \<open>delta\<close> by its clamped value changes nothing in the
  result. On a climb under \<open>ArrowUp\<close> from the spawn point and on a falling wreck, for
  any supplied \<open>d \<ge> 0\<close>, the throttle ramp, the velocity and the position after the
  call are those of exactly \<open>min d 0.1\<close> seconds.
\<close>

theorem elapsed_time_is_clamped:
  "useFrame pr f s =
     (if \<not> mounted f then (s, [])
      else if isCrashed (nan_guard s)
      then crashed_logic (Math_min (delta f) (Fin 0.1)) (elapsedTime f) (nan_guard s)
      else flying_logic pr (keys f) (Math_min (delta f) (Fin 0.1)) (elapsedTime f)
             (nan_guard s))
   \<and> \<not> Fin 0.1 < Math_min (delta f) (Fin 0.1)
   \<and> useFrame pr f s = useFrame pr (f\<lparr>delta := Math_min (delta f) (Fin 0.1)\<rparr>) s
   \<and> useFrame pr (f\<lparr>delta := Fin d\<rparr>) s = useFrame pr (f\<lparr>delta := Fin (min d 0.1)\<rparr>) s
   \<and> (0 \<le> d \<longrightarrow>
        fst (useFrame empty_world (frame_of d 1 [''ArrowUp'']) initial_refs)
          = \<lparr>position = Vector3 (Fin 0)
                (Fin (2 + (130 * min d 0.1 - 25) * min d 0.1 * 0.98 * min d 0.1)) (Fin 0),
             velocity = Vector3 (Fin 0) (Fin ((130 * min d 0.1 - 25) * min d 0.1 * 0.98)) (Fin 0),
             rotation = Euler (Fin 0) (Fin 0) (Fin 0), throttle = Fin (min d 0.1 * 2),
             isCrashed = False, lastStatsUpdate = Fin 1\<rparr>
        \<and> fst (useFrame empty_world (frame_of d 1 []) wreck)
          = \<lparr>position = Vector3 (Fin 0) (Fin (2 - 25 * min d 0.1 * min d 0.1)) (Fin 0),
             velocity = Vector3 (Fin 0) (Fin (- (25 * min d 0.1))) (Fin 0),
             rotation = Euler (Fin 0) (Fin 0) (Fin 0), throttle = Fin 0,
             isCrashed = True, lastStatsUpdate = Fin 1\<rparr>)"
proof (intro conjI impI)
  show "useFrame pr f s =
     (if \<not> mounted f then (s, [])
      else if isCrashed (nan_guard s)
      then crashed_logic (Math_min (delta f) (Fin 0.1)) (elapsedTime f) (nan_guard s)
      else flying_logic pr (keys f) (Math_min (delta f) (Fin 0.1)) (elapsedTime f)
             (nan_guard s))"
    by (rule useFrame_unfold)
  show "\<not> Fin 0.1 < Math_min (delta f) (Fin 0.1)"
    by (cases "delta f") simp_all
  show "useFrame pr f s = useFrame pr (f\<lparr>delta := Math_min (delta f) (Fin 0.1)\<rparr>) s"
    by (simp add: useFrame_def Math_min_idem Let_def)
  show "useFrame pr (f\<lparr>delta := Fin d\<rparr>) s = useFrame pr (f\<lparr>delta := Fin (min d 0.1)\<rparr>) s"
    by (simp add: useFrame_def Let_def)
next
  assume d: "0 \<le> d"
  show "fst (useFrame empty_world (frame_of d 1 [''ArrowUp'']) initial_refs)
          = \<lparr>position = Vector3 (Fin 0)
                (Fin (2 + (130 * min d 0.1 - 25) * min d 0.1 * 0.98 * min d 0.1)) (Fin 0),
             velocity = Vector3 (Fin 0) (Fin ((130 * min d 0.1 - 25) * min d 0.1 * 0.98)) (Fin 0),
             rotation = Euler (Fin 0) (Fin 0) (Fin 0), throttle = Fin (min d 0.1 * 2),
             isCrashed = False, lastStatsUpdate = Fin 1\<rparr>"
    using d by (rule climb_step)
  show "fst (useFrame empty_world (frame_of d 1 []) wreck)
          = \<lparr>position = Vector3 (Fin 0) (Fin (2 - 25 * min d 0.1 * min d 0.1)) (Fin 0),
             velocity = Vector3 (Fin 0) (Fin (- (25 * min d 0.1))) (Fin 0),
             rotation = Euler (Fin 0) (Fin 0) (Fin 0), throttle = Fin 0,
             isCrashed = True, lastStatsUpdate = Fin 1\<rparr>"
    using d by (rule fall_step)
qed

theorem elapsed_time_is_clamped_witness:
  "fst (useFrame empty_world (frame_of 5 1 [''ArrowUp'']) initial_refs)
     = \<lparr>position = Vector3 (Fin 0) (Fin 1.8824) (Fin 0),
        velocity = Vector3 (Fin 0) (Fin (- 1.176)) (Fin 0),
        rotation = Euler (Fin 0) (Fin 0) (Fin 0), throttle = Fin 0.2,
        isCrashed = False, lastStatsUpdate = Fin 1\<rparr>
   \<and> fst (useFrame empty_world (frame_of 5 1 []) wreck)
     = \<lparr>position = Vector3 (Fin 0) (Fin 1.75) (Fin 0),
        velocity = Vector3 (Fin 0) (Fin (- 2.5)) (Fin 0),
        rotation = Euler (Fin 0) (Fin 0) (Fin 0), throttle = Fin 0,
        isCrashed = True, lastStatsUpdate = Fin 1\<rparr>"
proof -
  have "(0::real) \<le> 5" by simp
  with elapsed_time_is_clamped [of empty_world "frame_of 5 1 []" wreck 5]
  have "fst (useFrame empty_world (frame_of 5 1 [''ArrowUp'']) initial_refs)
          = \<lparr>position = Vector3 (Fin 0)
                (Fin (2 + (130 * min 5 0.1 - 25) * min 5 0.1 * 0.98 * min 5 0.1)) (Fin 0),
             velocity = Vector3 (Fin 0) (Fin ((130 * min 5 0.1 - 25) * min 5 0.1 * 0.98)) (Fin 0),
             rotation = Euler (Fin 0) (Fin 0) (Fin 0), throttle = Fin (min 5 0.1 * 2),
             isCrashed = False, lastStatsUpdate = Fin 1\<rparr>
        \<and> fst (useFrame empty_world (frame_of 5 1 []) wreck)
          = \<lparr>position = Vector3 (Fin 0) (Fin (2 - 25 * min 5 0.1 * min 5 0.1)) (Fin 0),
             velocity = Vector3 (Fin 0) (Fin (- (25 * min 5 0.1))) (Fin 0),
             rotation = Euler (Fin 0) (Fin 0) (Fin 0), throttle = Fin 0,
             isCrashed = True, lastStatsUpdate = Fin 1\<rparr>"
    by blast
  then show ?thesis by simp
qed

section \<open>The objective signal\<close>

lemma sqrt_less_pos:
  assumes "0 < (c::real)"
  shows "sqrt a < c \<longleftrightarrow> a < c * c"
proof -
  have "sqrt a < sqrt (c * c) \<longleftrightarrow> a < c * c" by (rule real_sqrt_less_iff)
  moreover have "sqrt (c * c) = c" using assms by simp
  ultimately show ?thesis by simp
qed

lemma objective_events_count:
  "count_list (objective_events (distanceToObj (objectivePosition pr) p)) onObjectiveReached
     = (if within_capture pr p then 1 else 0)"
  by (simp add: objective_events_def distanceToObj_def within_capture_def
      split: option.splits prod.splits)

lemma flying_logic_snd:
  assumes "predict k dt s = (s2, quat, np, c0)"
  shows "count_list (snd (flying_logic pr k dt now s)) onObjectiveReached =
     (if detect_collision (obstacles pr) quat np c0 \<and> \<not> isCrashed s2 then 0
      else if within_capture pr np then 1 else 0)"
  using assms by (simp add: flying_logic_def Let_def objective_events_count)

lemma predict_isCrashed:
  assumes "predict k dt s = (s2, quat, np, c0)"
  shows "isCrashed s2 = isCrashed s" and "c0 = False"
  using assms ground_physics_never_flags [of k dt
      "v_add (position (handle_inputs k dt s))
         (multiplyScalar (integrate_velocity dt (setFromEuler (rotation (handle_inputs k dt s)))
            (handle_inputs k dt s)) dt)"
      "integrate_velocity dt (setFromEuler (rotation (handle_inputs k dt s)))
         (handle_inputs k dt s)"
      "rotation (handle_inputs k dt s)" "isCrashed (handle_inputs k dt s)"]
  by (auto simp add: predict_def Let_def handle_inputs_def split: prod.splits)

text \<open>
  C4 as the claim states it fails: the drone starts \<open>4.1\<close> above the objective and
  falls towards it. The first frame brings it within the capture radius, the second
  leaves it there, and \<open>onObjectiveReached\<close> is invoked in both: twice in the session,
  not once.
\<close>

theorem objective_signal_repeats:
  "\<not> within_capture beacon_world (position initial_refs)
   \<and> within_capture beacon_world (position (fst (run_frames beacon_world [tick] initial_refs)))
   \<and> within_capture beacon_world
        (position (fst (run_frames beacon_world [tick, tick] initial_refs)))
   \<and> count_list (snd (run_frames beacon_world [tick, tick] initial_refs)) onObjectiveReached = 2"
  by (simp add: within_capture_def step_defs input_defs vector_defs number_defs input_values
      Let_def sqrt_less_pos)

text \<open>
  C4 as amended: the signal is level-triggered. A call of the frame callback invokes
  \<open>onObjectiveReached\<close> once if the frame is mounted, the drone is flying after the call
  and the committed position is closer than \<open>4.0\<close> to a set objective, and does not
  invoke it otherwise; so it is invoked again on every later frame that still meets the
  condition. The receiver latches: an invocation sets \<open>missionComplete\<close>, whatever
  it was, and a second invocation leaves it as the first one set it.
\<close>

theorem objective_signal_is_level_triggered:
  "count_list (snd (useFrame pr f s)) onObjectiveReached =
     (if mounted f \<and> \<not> isCrashed (fst (useFrame pr f s))
         \<and> within_capture pr (position (fst (useFrame pr f s))) then 1 else 0)
   \<and> handleObjectiveReached m = True
   \<and> handleObjectiveReached (handleObjectiveReached m) = handleObjectiveReached m"
proof -
  obtain s2 quat np c0
    where p: "predict (keys f) (Math_min (delta f) (Fin 0.1)) (nan_guard s) = (s2, quat, np, c0)"
    using predict_cases by blast
  have "count_list (snd (useFrame pr f s)) onObjectiveReached =
     (if mounted f \<and> \<not> isCrashed (fst (useFrame pr f s))
         \<and> within_capture pr (position (fst (useFrame pr f s))) then 1 else 0)"
    by (simp add: useFrame_def Let_def crashed_logic_isCrashed nan_guard_isCrashed
       flying_logic_fst [OF p] flying_logic_snd [OF p] predict_isCrashed [OF p]
       crashed_logic_def)
  then show ?thesis by (simp add: handleObjectiveReached_def)
qed


section \<open>Collision scans\<close>

lemma prop_ground_check_iff: "prop_ground_check ps \<longleftrightarrow> (\<exists>p\<in>set ps. yc p < Fin 0.1)"
  by (induction ps) auto

lemma scan_points_iff: "scan_points obs cps \<longleftrightarrow> (\<exists>cp\<in>set cps. point_hit obs cp)"
  by (induction cps) auto

lemma scan_obstacles_iff:
  "scan_obstacles obss cps \<longleftrightarrow> (\<exists>obs\<in>set obss. \<exists>cp\<in>set cps. point_hit obs cp)"
  by (induction obss) (auto simp add: scan_points_iff)

lemma detect_collision_iff:
  "detect_collision obss quat np False \<longleftrightarrow>
     prop_ground_check (propPoints quat np)
     \<or> (\<exists>obs\<in>set obss. \<exists>cp\<in>set (checkPoints np (propPoints quat np)). point_hit obs cp)"
  by (auto simp add: detect_collision_def Let_def scan_obstacles_iff)

lemma useFrame_flying_crash_iff:
  assumes "mounted f" and "\<not> isCrashed s"
    and "predict (keys f) (Math_min (delta f) (Fin 0.1)) (nan_guard s) = (s2, quat, np, c0)"
  shows "isCrashed (fst (useFrame pr f s)) \<longleftrightarrow> detect_collision (obstacles pr) quat np False"
  using assms(1,2) predict_isCrashed [OF assms(3)]
  by (simp add: useFrame_def Let_def nan_guard_isCrashed flying_logic_fst [OF assms(3)])

section \<open>Trees\<close>

lemma tree_hit_iff:
  assumes "obs_type obs = tree" "obs_position obs = (px, py, pz)" "obs_size obs = (sw, sh, sd)"
  shows "point_hit obs (point, radius) \<longleftrightarrow>
     Math_sqrt (Math_pow2 (xc point - px) + Math_pow2 (zc point - pz)) < Fin 1.5 + radius
     \<and> yc point < sh"
  using assms by (simp add: point_hit_def tree_hit_def)

lemma less_eq_not_less: "(a::number) \<le> b \<Longrightarrow> \<not> b < a"
  by (cases a; cases b) simp_all

text \<open>
  C6. In a flying, mounted step, take a tree of the obstacle list and one of the five
  check points (the candidate centre with the body radius, or a propeller tip with the tip
  radius) whose distance to the tree axis in the XZ plane is below \<open>1.5\<close> plus the
  point's radius. If the point's altitude is below the tree's height, the step ends
  Crashed. If it is at or above the tree's height, the test of this point against this
  tree is negative, and a crash in the step, if any, comes from a propeller tip on the
  ground or from another pair of obstacle and point.
\<close>

theorem tree_collision:
  assumes "mounted f" and "\<not> isCrashed s"
    and "predict (keys f) (Math_min (delta f) (Fin 0.1)) (nan_guard s) = (s2, quat, np, c0)"
    and "obs \<in> set (obstacles pr)" and "obs_type obs = tree"
    and "obs_position obs = (px, py, pz)" and "obs_size obs = (sw, sh, sd)"
    and "(point, radius) \<in> set (checkPoints np (propPoints quat np))"
    and "Math_sqrt (Math_pow2 (xc point - px) + Math_pow2 (zc point - pz)) < Fin 1.5 + radius"
  shows "(yc point < sh \<longrightarrow> isCrashed (fst (useFrame pr f s)))
    \<and> (sh \<le> yc point \<longrightarrow>
         \<not> point_hit obs (point, radius)
         \<and> (isCrashed (fst (useFrame pr f s)) \<longrightarrow>
              prop_ground_check (propPoints quat np)
              \<or> (\<exists>ob\<in>set (obstacles pr). \<exists>cp\<in>set (checkPoints np (propPoints quat np)).
                    (ob, cp) \<noteq> (obs, (point, radius)) \<and> point_hit ob cp)))"
proof (intro conjI impI)
  assume "yc point < sh"
  then have "point_hit obs (point, radius)"
    using assms(9) by (simp add: tree_hit_iff [OF assms(5,6,7)])
  then have "detect_collision (obstacles pr) quat np False"
    using assms(4,8) by (auto simp add: detect_collision_iff)
  then show "isCrashed (fst (useFrame pr f s))"
    by (simp add: useFrame_flying_crash_iff [OF assms(1,2,3)])
next
  assume above: "sh \<le> yc point"
  then show no_hit: "\<not> point_hit obs (point, radius)"
    by (simp add: tree_hit_iff [OF assms(5,6,7)] less_eq_not_less)
  assume "isCrashed (fst (useFrame pr f s))"
  then have "detect_collision (obstacles pr) quat np False"
    by (simp add: useFrame_flying_crash_iff [OF assms(1,2,3)])
  then consider "prop_ground_check (propPoints quat np)"
    | ob cp where "ob \<in> set (obstacles pr)" "cp \<in> set (checkPoints np (propPoints quat np))"
        "point_hit ob cp"
    unfolding detect_collision_iff by blast
  then show "prop_ground_check (propPoints quat np)
              \<or> (\<exists>ob\<in>set (obstacles pr). \<exists>cp\<in>set (checkPoints np (propPoints quat np)).
                    (ob, cp) \<noteq> (obs, (point, radius)) \<and> point_hit ob cp)"
  proof cases
    case 1
    then show ?thesis by simp
  next
    case 2
    then have "(ob, cp) \<noteq> (obs, (point, radius))" using no_hit by auto
    then show ?thesis using 2 by blast
  qed
qed

lemma predict_tick_initial:
  "predict (keys tick) (Math_min (delta tick) (Fin 0.1)) (nan_guard initial_refs)
     = (initial_refs\<lparr>velocity := Vector3 (Fin 0) (Fin (- 2.45)) (Fin 0)\<rparr>,
        Quaternion (Fin 0) (Fin 0) (Fin 0) (Fin 1), Vector3 (Fin 0) (Fin 1.755) (Fin 0), False)"
  by (simp add: step_defs input_defs vector_defs number_defs input_values Let_def)

theorem tree_collision_witness:
  "isCrashed (fst (useFrame (world_of [tall_tree]) tick initial_refs))
   \<and> \<not> point_hit short_tree (Vector3 (Fin 0) (Fin 1.755) (Fin 0), DRONE_RADIUS)
   \<and> \<not> isCrashed (fst (useFrame (world_of [short_tree]) tick initial_refs))"
proof -
  have m: "mounted tick" by (simp add: input_values)
  have c: "\<not> isCrashed initial_refs" by (simp add: input_values)
  have cp: "(Vector3 (Fin 0) (Fin 1.755) (Fin 0), DRONE_RADIUS)
      \<in> set (checkPoints (Vector3 (Fin 0) (Fin 1.755) (Fin 0))
           (propPoints (Quaternion (Fin 0) (Fin 0) (Fin 0) (Fin 1)) (Vector3 (Fin 0) (Fin 1.755) (Fin 0))))"
    by (simp add: checkPoints_def)
  have d: "Math_sqrt (Math_pow2 (xc (Vector3 (Fin 0) (Fin 1.755) (Fin 0)) - Fin 1.9)
        + Math_pow2 (zc (Vector3 (Fin 0) (Fin 1.755) (Fin 0)) - Fin 0)) < Fin 1.5 + DRONE_RADIUS"
    by (simp add: Math_pow2_def DRONE_RADIUS_def sqrt_less_pos)
  have tall: "isCrashed (fst (useFrame (world_of [tall_tree]) tick initial_refs))"
    using tree_collision [OF m c predict_tick_initial, of tall_tree "world_of [tall_tree]"
        "Fin 1.9" "Fin 0" "Fin 0" "Fin 1.5" "Fin 4" "Fin 1.5", OF _ _ _ _ cp d]
    by (simp add: world_of_def tall_tree_def)
  have short: "\<not> point_hit short_tree (Vector3 (Fin 0) (Fin 1.755) (Fin 0), DRONE_RADIUS)
     \<and> \<not> isCrashed (fst (useFrame (world_of [short_tree]) tick initial_refs))"
    using tree_collision [OF m c predict_tick_initial, of short_tree "world_of [short_tree]"
        "Fin 1.9" "Fin 0" "Fin 0" "Fin 1.5" "Fin 1" "Fin 1.5", OF _ _ _ _ cp d]
    by (auto simp add: world_of_def short_tree_def checkPoints_def propPoints_def point_hit_def
          tree_hit_def vector_defs number_defs)
  show ?thesis using tall short by simp
qed


section \<open>After the crash\<close>

lemma nan_guard_x_finite:
  "\<not> isNaN (xc (position (nan_guard s)))" "\<not> isNaN (xc (velocity (nan_guard s)))"
  by (simp_all add: nan_guard_def Let_def zero3_def)

lemma nan_guard_id:
  assumes "\<not> isNaN (xc (position s))" "\<not> isNaN (xc (velocity s))"
  shows "nan_guard s = s"
  using assms by (simp add: nan_guard_def Let_def)

lemma crash_position_x_finite:
  assumes "\<not> isNaN (xc p)"
  shows "\<not> isNaN (xc (crash_position p v))"
proof (cases "Fin 0.1 < lengthSq v")
  case False
  then show ?thesis using assms by (simp add: crash_position_def)
next
  case True
  obtain a b c where v: "v = Vector3 a b c" by (cases v)
  obtain a' b' c' where f: "a = Fin a'" "b = Fin b'" "c = Fin c'"
    using True unfolding v by (cases a; cases b; cases c) (simp_all add: lengthSq_def)
  obtain px where p: "xc p = Fin px" using assms by (cases "xc p") simp_all
  have "0 < a' * a' + b' * b' + c' * c'" using True by (simp add: v f lengthSq_def)
  then show ?thesis
    using True by (simp add: crash_position_def v f p vector_defs)
qed

lemma latch_step:
  assumes "\<not> isCrashed s" and "isCrashed (fst (useFrame pr f s))"
  shows "velocity (fst (useFrame pr f s)) = zero3"
    and "\<not> isNaN (xc (position (fst (useFrame pr f s))))"
proof -
  have m: "mounted f" using assms by (cases "mounted f") (simp_all add: useFrame_def)
  obtain s2 quat np c0
    where p: "predict (keys f) (Math_min (delta f) (Fin 0.1)) (nan_guard s) = (s2, quat, np, c0)"
    using predict_cases by blast
  have c: "detect_collision (obstacles pr) quat np False"
    using assms by (simp add: useFrame_flying_crash_iff [OF m assms(1) p])
  have eq: "fst (useFrame pr f s) =
      s2\<lparr>isCrashed := True, position := crash_position (position s2) (velocity s2), velocity := zero3\<rparr>"
    using m assms(1) c predict_isCrashed [OF p]
    by (simp add: useFrame_def Let_def nan_guard_isCrashed flying_logic_fst [OF p])
  show "velocity (fst (useFrame pr f s)) = zero3" by (simp add: eq)
  show "\<not> isNaN (xc (position (fst (useFrame pr f s))))"
    by (simp add: eq predict_frame(2) [OF p] crash_position_x_finite nan_guard_x_finite)
qed

lemma crashed_logic_horizontal:
  assumes "xc (velocity s) = Fin 0" "zc (velocity s) = Fin 0" "xc (position s) = Fin px"
  shows "xc (position (fst (crashed_logic (Fin e) now s))) = xc (position s)"
    and "zc (position (fst (crashed_logic (Fin e) now s))) = zc (position s)"
    and "xc (velocity (fst (crashed_logic (Fin e) now s))) = Fin 0"
    and "zc (velocity (fst (crashed_logic (Fin e) now s))) = Fin 0"
  using assms
  by (cases "zc (position s)"; simp add: crashed_logic_def Let_def v_add_def multiplyScalar_def zero3_def)+

lemma wreck_step:
  assumes "isCrashed s" "xc (velocity s) = Fin 0" "zc (velocity s) = Fin 0"
    "\<not> isNaN (xc (position s))" "\<not> isNaN (delta f)"
  shows "xc (position (fst (useFrame pr f s))) = xc (position s)"
    and "zc (position (fst (useFrame pr f s))) = zc (position s)"
    and "xc (velocity (fst (useFrame pr f s))) = Fin 0"
    and "zc (velocity (fst (useFrame pr f s))) = Fin 0"
proof -
  obtain px where px: "xc (position s) = Fin px" using assms(4) by (cases "xc (position s)") simp_all
  obtain d where d: "delta f = Fin d" using assms(5) by (cases "delta f") simp_all
  have g: "nan_guard s = s" using assms by (simp add: nan_guard_id)
  have eq: "mounted f \<Longrightarrow> fst (useFrame pr f s) = fst (crashed_logic (Fin (min d (1 / 10))) (elapsedTime f) s)"
    using assms(1) by (simp add: useFrame_def Let_def g d)
  show "xc (position (fst (useFrame pr f s))) = xc (position s)"
    and "zc (position (fst (useFrame pr f s))) = zc (position s)"
    and "xc (velocity (fst (useFrame pr f s))) = Fin 0"
    and "zc (velocity (fst (useFrame pr f s))) = Fin 0"
    using eq assms(2,3) crashed_logic_horizontal [OF assms(2,3) px]
    by (cases "mounted f"; simp add: useFrame_def)+
qed

lemma run_frames_Cons_fst:
  "fst (run_frames pr (f # fs) s) = fst (run_frames pr fs (fst (useFrame pr f s)))"
  by (cases "useFrame pr f s"; cases "run_frames pr fs (fst (useFrame pr f s))") simp

lemma wreck_run:
  assumes "isCrashed s" "xc (velocity s) = Fin 0" "zc (velocity s) = Fin 0"
    "\<not> isNaN (xc (position s))" "\<forall>g\<in>set fs. \<not> isNaN (delta g)"
  shows "xc (position (fst (run_frames pr fs s))) = xc (position s)
    \<and> zc (position (fst (run_frames pr fs s))) = zc (position s)
    \<and> xc (velocity (fst (run_frames pr fs s))) = Fin 0
    \<and> zc (velocity (fst (run_frames pr fs s))) = Fin 0"
  using assms
proof (induction fs arbitrary: s)
  case Nil
  then show ?case by simp
next
  case (Cons f fs)
  let ?s1 = "fst (useFrame pr f s)"
  have d: "\<not> isNaN (delta f)" using Cons.prems(5) by simp
  note st = wreck_step [OF Cons.prems(1-4) d, of pr]
  have c1: "isCrashed ?s1" using Cons.prems(1) by (rule useFrame_keeps_crashed)
  have x1: "\<not> isNaN (xc (position ?s1))" using st(1) Cons.prems(4) by simp
  have rest: "\<forall>g\<in>set fs. \<not> isNaN (delta g)" using Cons.prems(5) by simp
  show ?case
    unfolding run_frames_Cons_fst
    using Cons.IH [OF c1 st(3) st(4) x1 rest] st by simp
qed

text \<open>
  C10. Take the step in which the latch is set: the drone is flying before it and crashed
  after it. That step leaves the velocity zero, and over any further frames of the
  session whose elapsed time is a number, the \<open>x\<close> and \<open>z\<close> components of the position
  stay what they were right after the latch step and the \<open>x\<close> and \<open>z\<close> components of
  the velocity stay zero: the crashed branch moves the drone vertically only.
\<close>

theorem wreck_keeps_horizontal_components:
  assumes "\<not> isCrashed s" and "isCrashed (fst (useFrame pr f s))"
    and "\<forall>g\<in>set fs. \<not> isNaN (delta g)"
  shows "velocity (fst (useFrame pr f s)) = zero3
    \<and> xc (position (fst (run_frames pr fs (fst (useFrame pr f s)))))
        = xc (position (fst (useFrame pr f s)))
    \<and> zc (position (fst (run_frames pr fs (fst (useFrame pr f s)))))
        = zc (position (fst (useFrame pr f s)))
    \<and> xc (velocity (fst (run_frames pr fs (fst (useFrame pr f s))))) = Fin 0
    \<and> zc (velocity (fst (run_frames pr fs (fst (useFrame pr f s))))) = Fin 0"
proof -
  note l = latch_step [OF assms(1,2)]
  have vx: "xc (velocity (fst (useFrame pr f s))) = Fin 0" "zc (velocity (fst (useFrame pr f s))) = Fin 0"
    by (simp_all add: l(1) zero3_def)
  show ?thesis
    using wreck_run [OF assms(2) vx l(2) assms(3)] l(1) by simp
qed

lemma tall_tree_crash:
  "isCrashed (fst (useFrame (world_of [tall_tree]) tick initial_refs))"
  by (simp add: step_defs input_defs vector_defs number_defs input_values Let_def sqrt_less_pos)

theorem wreck_keeps_horizontal_components_witness:
  "\<not> isCrashed initial_refs
   \<and> isCrashed (fst (useFrame (world_of [tall_tree]) tick initial_refs))
   \<and> velocity (fst (useFrame (world_of [tall_tree]) tick initial_refs)) = zero3
   \<and> xc (position (fst (run_frames (world_of [tall_tree]) [tick, frame_of 0.016 2 [''KeyW'']]
        (fst (useFrame (world_of [tall_tree]) tick initial_refs)))))
       = xc (position (fst (useFrame (world_of [tall_tree]) tick initial_refs)))"
proof -
  have a: "\<not> isCrashed initial_refs" by (simp add: initial_refs_def)
  have b: "\<forall>g\<in>set [tick, frame_of 0.016 2 [''KeyW'']]. \<not> isNaN (delta g)"
    by (simp add: tick_def frame_of_def)
  show ?thesis
    using a tall_tree_crash wreck_keeps_horizontal_components [OF a tall_tree_crash b]
    by simp
qed


section \<open>Buildings\<close>

text \<open>
  C5 as the claim states it fails. A block floats with its inflated underside at altitude
  \<open>4.5\<close>; the drone creeps up from \<open>4.48\<close>, outside the inflated box, at \<open>0.294\<close>
  units per second. The candidate centre \<open>4.5094\<close> is strictly inside the inflated box,
  and the step ends Crashed; the squared speed is below \<open>0.1\<close>, so the vertical nudge
  applies, and the committed position \<open>4.98\<close> is inside the inflated box.
\<close>

theorem building_crash_can_end_inside:
  "mounted tick \<and> \<not> isCrashed rising
   \<and> floating_block \<in> set (obstacles (world_of [floating_block]))
   \<and> obs_type floating_block = building
   \<and> predict (keys tick) (Math_min (delta tick) (Fin 0.1)) (nan_guard rising)
       = (rising\<lparr>velocity := Vector3 (Fin 0) (Fin 0.294) (Fin 0)\<rparr>,
          Quaternion (Fin 0) (Fin 0) (Fin 0) (Fin 1), Vector3 (Fin 0) (Fin 4.5094) (Fin 0), False)
   \<and> \<not> building_hit floating_block (position rising) DRONE_RADIUS
   \<and> building_hit floating_block (Vector3 (Fin 0) (Fin 4.5094) (Fin 0)) DRONE_RADIUS
   \<and> isCrashed (fst (useFrame (world_of [floating_block]) tick rising))
   \<and> position (fst (useFrame (world_of [floating_block]) tick rising))
       = Vector3 (Fin 0) (Fin 4.98) (Fin 0)
   \<and> building_hit floating_block
        (position (fst (useFrame (world_of [floating_block]) tick rising))) DRONE_RADIUS"
  by (simp add: step_defs input_defs vector_defs number_defs input_values Let_def)


lemma axis_pushback_real:
  fixes p c h v e w i :: real
  assumes out: "\<not> \<bar>p - c\<bar> < h" and ins: "\<bar>p + v * e - c\<bar> < h"
    and e: "0 \<le> e" and w: "w = v \<or> w = v * (8 / 10)" and i: "0 < i"
  shows "\<not> \<bar>p - w * i * (15 / 10) - c\<bar> < h"
proof (cases "h \<le> p - c")
  case True
  then have "v * e < 0" using ins by linarith
  then have "v < 0" using e by (simp add: mult_less_0_iff)
  then have "w < 0" using w by auto
  then have "w * i < 0" using i by (simp add: mult_less_0_iff)
  then show ?thesis using True by linarith
next
  case False
  then have low: "p - c \<le> - h" using out by linarith
  then have "0 < v * e" using ins by linarith
  then have "0 < v" using e by (simp add: zero_less_mult_iff)
  then have "0 < w" using w by auto
  then have "0 < w * i" using i by simp
  then show ?thesis using low by linarith
qed

lemma axis_pushback:
  assumes out: "\<not> Math_abs (p - c) < h" and ins: "Math_abs (p + v * Fin e - c) < h"
    and e: "0 \<le> e" and w: "w = v \<or> w = v * Fin 0.8" and i: "0 < i"
  shows "\<not> Math_abs (p - w * Fin i * Fin 1.5 - c) < h"
proof -
  obtain p' c' h' v' where f: "p = Fin p'" "c = Fin c'" "h = Fin h'" "v = Fin v'"
    using ins by (cases p; cases c; cases h; cases v) simp_all
  from w show ?thesis
  proof
    assume "w = v"
    then show ?thesis
      using axis_pushback_real [of p' c' h' v' e v' i] out ins e i by (simp add: f)
  next
    assume "w = v * Fin 0.8"
    then show ?thesis
      using axis_pushback_real [of p' c' h' v' e "v' * (8 / 10)" i] out ins e i by (simp add: f)
  qed
qed

lemma axis_still:
  assumes "\<not> Math_abs (p - c) < h"
  shows "\<not> Math_abs (p - Fin 0 * Fin i * Fin 1.5 - c) < h"
  using assms by (cases p; cases c; cases h) simp_all

lemma v_normalize_scale:
  assumes "Fin 0.1 < lengthSq v"
  shows "\<exists>i. 0 < i \<and> v_normalize v = multiplyScalar v (Fin i)"
proof -
  obtain a b c where v: "v = Vector3 a b c" by (cases v)
  obtain a' b' c' where f: "a = Fin a'" "b = Fin b'" "c = Fin c'"
    using assms unfolding v by (cases a; cases b; cases c) (simp_all add: lengthSq_def)
  have pos: "0 < a' * a' + b' * b' + c' * c'" using assms by (simp add: v f lengthSq_def)
  then have "0 < 1 / sqrt (a' * a' + b' * b' + c' * c')" by simp
  moreover have "v_normalize v = multiplyScalar v (Fin (1 / sqrt (a' * a' + b' * b' + c' * c')))"
    using pos by (simp add: v f vector_defs)
  ultimately show ?thesis by blast
qed

lemma predict_geometry:
  assumes "predict k dt s = (s2, quat, np, c0)"
  shows "\<exists>v1. xc np = xc (position s) + xc v1 * dt \<and> zc np = zc (position s) + zc v1 * dt
     \<and> (xc (velocity s2) = xc v1 \<or> xc (velocity s2) = xc v1 * Fin 0.8)
     \<and> (zc (velocity s2) = zc v1 \<or> zc (velocity s2) = zc v1 * Fin 0.8)
     \<and> (yc np = yc (position s) + yc v1 * dt \<and> yc (velocity s2) = yc v1
          \<or> yc (velocity s2) = Fin 0)"
proof -
  let ?s1 = "handle_inputs k dt s"
  let ?v1 = "integrate_velocity dt (setFromEuler (rotation ?s1)) ?s1"
  have pos: "position ?s1 = position s" by (simp add: handle_inputs_def Let_def)
  show ?thesis
    using assms
    by (intro exI [of _ ?v1])
       (auto simp add: predict_def ground_physics_def Let_def pos v_add_def multiplyScalar_def
          split: if_splits)
qed


lemma building_hit_axes:
  assumes "obs_position obs = (px, py, pz)" "obs_size obs = (sw, sh, sd)"
  shows "building_hit obs q r \<longleftrightarrow>
     Math_abs (xc q - px) < sw / Fin 2 + r \<and> Math_abs (yc q - py) < sh / Fin 2 + r
     \<and> Math_abs (zc q - pz) < sd / Fin 2 + r"
  using assms by (simp add: building_hit_def)

lemma pushback_leaves_box:
  assumes x: "xc np = xc P + xc v1 * Fin e" and z: "zc np = zc P + zc v1 * Fin e"
    and wx: "xc v2 = xc v1 \<or> xc v2 = xc v1 * Fin 0.8"
    and wz: "zc v2 = zc v1 \<or> zc v2 = zc v1 * Fin 0.8"
    and y: "yc np = yc P + yc v1 * Fin e \<and> yc v2 = yc v1 \<or> yc v2 = Fin 0"
    and e: "0 \<le> e"
    and ins: "building_hit obs np r" and out: "\<not> building_hit obs P r"
    and fast: "Fin 0.1 < lengthSq v2"
  shows "\<not> building_hit obs (crash_position P v2) r"
proof -
  obtain px py pz where c: "obs_position obs = (px, py, pz)" by (cases "obs_position obs")
  obtain sw sh sd where sz: "obs_size obs = (sw, sh, sd)" by (cases "obs_size obs")
  note ax = building_hit_axes [OF c sz]
  obtain i where i: "0 < i" "v_normalize v2 = multiplyScalar v2 (Fin i)"
    using v_normalize_scale [OF fast] by blast
  let ?R = "crash_position P v2"
  have R: "xc ?R = xc P - xc v2 * Fin i * Fin 1.5" "yc ?R = yc P - yc v2 * Fin i * Fin 1.5"
    "zc ?R = zc P - zc v2 * Fin i * Fin 1.5"
    using fast by (simp_all add: crash_position_def i(2) v_sub_def multiplyScalar_def)
  have inx: "Math_abs (xc P + xc v1 * Fin e - px) < sw / Fin 2 + r"
    and iny: "Math_abs (yc np - py) < sh / Fin 2 + r"
    and inz: "Math_abs (zc P + zc v1 * Fin e - pz) < sd / Fin 2 + r"
    using ins by (simp_all add: ax x z)
  consider "\<not> Math_abs (xc P - px) < sw / Fin 2 + r" | "\<not> Math_abs (yc P - py) < sh / Fin 2 + r"
    | "\<not> Math_abs (zc P - pz) < sd / Fin 2 + r"
    using out by (auto simp add: ax)
  then show ?thesis
  proof cases
    case 1
    then have "\<not> Math_abs (xc ?R - px) < sw / Fin 2 + r"
      unfolding R using axis_pushback [OF 1 inx e wx i(1)] by simp
    then show ?thesis by (simp add: ax)
  next
    case 2
    from y have "\<not> Math_abs (yc ?R - py) < sh / Fin 2 + r"
    proof
      assume a: "yc np = yc P + yc v1 * Fin e \<and> yc v2 = yc v1"
      then have iny': "Math_abs (yc P + yc v1 * Fin e - py) < sh / Fin 2 + r"
        using iny by simp
      have "yc v2 = yc v1 \<or> yc v2 = yc v1 * Fin 0.8" using a by simp
      then show ?thesis
        unfolding R using axis_pushback [OF 2 iny' e _ i(1)] by simp
    next
      assume "yc v2 = Fin 0"
      then show ?thesis
        unfolding R using axis_still [OF 2] by simp
    qed
    then show ?thesis by (simp add: ax)
  next
    case 3
    then have "\<not> Math_abs (zc ?R - pz) < sd / Fin 2 + r"
      unfolding R using axis_pushback [OF 3 inz e wz i(1)] by simp
    then show ?thesis by (simp add: ax)
  qed
qed

text \<open>
  C5 as amended. In a flying, mounted step, if one of the five check points lies strictly
  inside a building's box inflated by the point's radius on all three axes, the step ends
  Crashed with zero velocity, and the committed position is the position before the step
  (the candidate is dropped) moved by \<open>1.5\<close> against the normalized pre-crash velocity
  when the squared pre-crash speed exceeds \<open>0.1\<close>, and raised by \<open>0.5\<close> otherwise.
  That position is outside the inflated box when the point is the centre, the position
  before the step was outside the box, the pushback applies and the elapsed time is not
  negative; after the nudge, or from a position already inside, it may be inside.
\<close>

theorem building_collision:
  assumes "mounted f" and "\<not> isCrashed s"
    and "predict (keys f) (Math_min (delta f) (Fin 0.1)) (nan_guard s) = (s2, quat, np, c0)"
    and "obs \<in> set (obstacles pr)" and "obs_type obs = building"
    and "(point, radius) \<in> set (checkPoints np (propPoints quat np))"
    and "building_hit obs point radius"
  shows "isCrashed (fst (useFrame pr f s))
    \<and> velocity (fst (useFrame pr f s)) = zero3
    \<and> position (fst (useFrame pr f s)) =
        (if Fin 0.1 < lengthSq (velocity s2)
         then v_sub (position (nan_guard s))
                (multiplyScalar (v_normalize (velocity s2)) (Fin 1.5))
         else Vector3 (xc (position (nan_guard s))) (yc (position (nan_guard s)) + Fin 0.5)
                (zc (position (nan_guard s))))
    \<and> (delta f = Fin d \<and> 0 \<le> d \<and> point = np \<and> radius = DRONE_RADIUS
         \<and> \<not> building_hit obs (position (nan_guard s)) DRONE_RADIUS
         \<and> Fin 0.1 < lengthSq (velocity s2)
        \<longrightarrow> \<not> building_hit obs (position (fst (useFrame pr f s))) DRONE_RADIUS)"
proof -
  have hit: "point_hit obs (point, radius)"
    using assms(5,7) by (simp add: point_hit_def)
  then have c: "detect_collision (obstacles pr) quat np False"
    using assms(4,6) by (auto simp add: detect_collision_iff)
  have eq: "fst (useFrame pr f s) =
      s2\<lparr>isCrashed := True, position := crash_position (position (nan_guard s)) (velocity s2),
         velocity := zero3\<rparr>"
    using assms(1,2) c predict_isCrashed [OF assms(3)]
    by (simp add: useFrame_def Let_def nan_guard_isCrashed flying_logic_fst [OF assms(3)]
        predict_frame(2) [OF assms(3)])
  have "\<not> building_hit obs (position (fst (useFrame pr f s))) DRONE_RADIUS"
    if h: "delta f = Fin d" "0 \<le> d" "point = np" "radius = DRONE_RADIUS"
      "\<not> building_hit obs (position (nan_guard s)) DRONE_RADIUS"
      "Fin 0.1 < lengthSq (velocity s2)"
  proof -
    have dt: "Math_min (delta f) (Fin 0.1) = Fin (min d (1 / 10))" using h(1) by simp
    have e: "0 \<le> min d (1 / 10)" using h(2) by simp
    obtain v1 where g:
      "xc np = xc (position (nan_guard s)) + xc v1 * Fin (min d (1 / 10))"
      "zc np = zc (position (nan_guard s)) + zc v1 * Fin (min d (1 / 10))"
      "xc (velocity s2) = xc v1 \<or> xc (velocity s2) = xc v1 * Fin 0.8"
      "zc (velocity s2) = zc v1 \<or> zc (velocity s2) = zc v1 * Fin 0.8"
      "yc np = yc (position (nan_guard s)) + yc v1 * Fin (min d (1 / 10)) \<and> yc (velocity s2) = yc v1
          \<or> yc (velocity s2) = Fin 0"
      using predict_geometry [OF assms(3)] unfolding dt by blast
    have ins: "building_hit obs np DRONE_RADIUS" using assms(7) h(3,4) by simp
    show ?thesis
      using pushback_leaves_box [OF g(1,2,3,4,5) e ins h(5,6)] by (simp add: eq)
  qed
  then show ?thesis
    by (simp add: eq crash_position_def)
qed


lemma predict_tick_descending:
  "predict (keys tick) (Math_min (delta tick) (Fin 0.1)) (nan_guard descending)
     = (descending\<lparr>velocity := Vector3 (Fin 0) (Fin (- 12.25)) (Fin 0)\<rparr>,
        Quaternion (Fin 0) (Fin 0) (Fin 0) (Fin 1), Vector3 (Fin 0) (Fin 1.775) (Fin 0), False)"
  by (simp add: step_defs input_defs vector_defs number_defs input_values Let_def)

theorem building_collision_witness:
  "\<not> isCrashed descending
   \<and> building_hit hangar (Vector3 (Fin 0) (Fin 1.775) (Fin 0)) DRONE_RADIUS
   \<and> \<not> building_hit hangar (position (nan_guard descending)) DRONE_RADIUS
   \<and> isCrashed (fst (useFrame (world_of [hangar]) tick descending))
   \<and> velocity (fst (useFrame (world_of [hangar]) tick descending)) = zero3
   \<and> \<not> building_hit hangar (position (fst (useFrame (world_of [hangar]) tick descending)))
        DRONE_RADIUS"
proof -
  have m: "mounted tick" by (simp add: input_values)
  have c: "\<not> isCrashed descending" by (simp add: input_values)
  have ob: "hangar \<in> set (obstacles (world_of [hangar]))" by (simp add: world_of_def)
  have ty: "obs_type hangar = building" by (simp add: hangar_def)
  have cp: "(Vector3 (Fin 0) (Fin 1.775) (Fin 0), DRONE_RADIUS)
      \<in> set (checkPoints (Vector3 (Fin 0) (Fin 1.775) (Fin 0))
           (propPoints (Quaternion (Fin 0) (Fin 0) (Fin 0) (Fin 1))
              (Vector3 (Fin 0) (Fin 1.775) (Fin 0))))"
    by (simp add: checkPoints_def)
  have hit: "building_hit hangar (Vector3 (Fin 0) (Fin 1.775) (Fin 0)) DRONE_RADIUS"
    by (simp add: building_hit_def hangar_def DRONE_RADIUS_def)
  have out: "\<not> building_hit hangar (position (nan_guard descending)) DRONE_RADIUS"
    by (simp add: building_hit_def hangar_def DRONE_RADIUS_def nan_guard_def descending_def
        initial_refs_def zero3_def)
  have d: "delta tick = Fin 0.1" by (simp add: tick_def frame_of_def)
  have fast: "Fin 0.1 < lengthSq (velocity (descending\<lparr>velocity := Vector3 (Fin 0) (Fin (- 12.25)) (Fin 0)\<rparr>))"
    by (simp add: lengthSq_def)
  note r = building_collision [OF m c predict_tick_descending ob ty cp hit, of "0.1"]
  have "\<not> building_hit hangar (position (fst (useFrame (world_of [hangar]) tick descending)))
        DRONE_RADIUS"
    using r out d fast by auto
  then show ?thesis
    using c hit out r by blast
qed


section \<open>Frames without elapsed time\<close>

text \<open>
  C9 as the claim states it fails. A flying drone drifts at one unit per second along
  \<open>x\<close>. A first frame with elapsed time \<open>0\<close> leaves it with velocity \<open>0.98\<close>, a second
  one with \<open>0.9604\<close>: the drag factor is applied on every call, whatever the elapsed
  time, and the state after two such frames differs from the state after one.
\<close>

theorem zero_time_steps_change_velocity:
  "delta still = Fin 0
   \<and> velocity (fst (useFrame empty_world still drifting)) = Vector3 (Fin 0.98) (Fin 0) (Fin 0)
   \<and> velocity (fst (useFrame empty_world still (fst (useFrame empty_world still drifting))))
       = Vector3 (Fin 0.9604) (Fin 0) (Fin 0)
   \<and> fst (useFrame empty_world still (fst (useFrame empty_world still drifting)))
       \<noteq> fst (useFrame empty_world still drifting)"
  by (simp add: step_defs input_defs vector_defs number_defs input_values Let_def)

lemma finite_numberE:
  assumes "\<not> isNaN a"
  obtains r where "a = Fin r"
  using assms by (cases a) simp_all

lemma finite3E:
  assumes "finite3 v"
  obtains a b c where "v = Vector3 (Fin a) (Fin b) (Fin c)"
proof -
  obtain x y z where v: "v = Vector3 x y z" by (cases v)
  from assms obtain a b c where "x = Fin a" "y = Fin b" "z = Fin c"
    unfolding finite3_def v by (auto elim!: finite_numberE)
  then show ?thesis using that v by simp
qed

lemma finite_refsE:
  assumes "finite_refs s"
  obtains px py pz vx vy vz rx ry rz th c l where
    "s = \<lparr>position = Vector3 (Fin px) (Fin py) (Fin pz),
          velocity = Vector3 (Fin vx) (Fin vy) (Fin vz),
          rotation = Euler (Fin rx) (Fin ry) (Fin rz), throttle = Fin th,
          isCrashed = c, lastStatsUpdate = l\<rparr>"
proof -
  obtain P V R t c l where s: "s = \<lparr>position = P, velocity = V, rotation = R, throttle = t,
          isCrashed = c, lastStatsUpdate = l\<rparr>" by (cases s) simp
  obtain r1 r2 r3 where R: "R = Euler r1 r2 r3" by (cases R)
  from assms have fp: "finite3 P" and fv: "finite3 V"
    and fr: "\<not> isNaN r1" "\<not> isNaN r2" "\<not> isNaN r3" and ft: "\<not> isNaN t"
    by (simp_all add: finite_refs_def s R)
  obtain px py pz where P: "P = Vector3 (Fin px) (Fin py) (Fin pz)" using fp by (rule finite3E)
  obtain vx vy vz where V: "V = Vector3 (Fin vx) (Fin vy) (Fin vz)" using fv by (rule finite3E)
  obtain rx ry rz th where n: "r1 = Fin rx" "r2 = Fin ry" "r3 = Fin rz" "t = Fin th"
    using fr ft by (auto elim!: finite_numberE)
  show ?thesis using that s R P V n by simp
qed


lemma setFromEuler_finite:
  "\<exists>a b c d. setFromEuler (Euler (Fin rx) (Fin ry) (Fin rz))
      = Quaternion (Fin a) (Fin b) (Fin c) (Fin d)"
  by (simp add: setFromEuler_def Let_def)

lemma applyQuaternion_finite:
  "\<exists>a b c. applyQuaternion (Vector3 (Fin x) (Fin y) (Fin z))
      (Quaternion (Fin qa) (Fin qb) (Fin qc) (Fin qd)) = Vector3 (Fin a) (Fin b) (Fin c)"
  by (simp add: applyQuaternion_def Let_def)

lemma integrate_velocity_zero_time:
  assumes "velocity s = Vector3 (Fin vx) (Fin vy) (Fin vz)" and "throttle s = Fin th"
  shows "integrate_velocity (Fin 0) (Quaternion (Fin qa) (Fin qb) (Fin qc) (Fin qd)) s
     = Vector3 (Fin (vx * 0.98)) (Fin (vy * 0.98)) (Fin (vz * 0.98))"
proof -
  obtain a b c where up: "applyQuaternion (Vector3 (Fin 0) (Fin 1) (Fin 0))
      (Quaternion (Fin qa) (Fin qb) (Fin qc) (Fin qd)) = Vector3 (Fin a) (Fin b) (Fin c)"
    using applyQuaternion_finite by blast
  show ?thesis
    by (simp add: integrate_velocity_def Let_def up assms multiplyScalar_def v_add_def
        GRAVITY_def THRUST_POWER_def DRAG_def)
qed

lemma throttle_input_zero_time:
  "\<exists>t. throttle_input k (Fin 0) (Fin th) = Fin t \<and> throttle_input k (Fin 0) (Fin t) = Fin t"
  by (simp add: throttle_input_def THROTTLE_RESPONSE_SPEED_def)

lemma handle_inputs_zero_time:
  assumes "throttle_input k (Fin 0) (Fin th) = Fin t"
  shows "handle_inputs k (Fin 0)
      \<lparr>position = P, velocity = V, rotation = Euler (Fin rx) (Fin ry) (Fin rz),
       throttle = Fin th, isCrashed = c, lastStatsUpdate = l\<rparr>
     = \<lparr>position = P, velocity = V, rotation = Euler (Fin rx) (Fin ry) (Fin rz),
        throttle = Fin t, isCrashed = c, lastStatsUpdate = l\<rparr>"
  by (simp add: handle_inputs_def Let_def assms takeoff_assist_def yaw_input_def lerp_def
      targetPitch_def targetRoll_def ROTATION_SPEED_def TILT_SPEED_def MAX_TILT_def
      HOVER_THROTTLE_def)

lemma predict_zero_time:
  assumes "throttle_input k (Fin 0) (Fin th) = Fin t"
  shows "predict k (Fin 0)
      \<lparr>position = Vector3 (Fin px) (Fin py) (Fin pz),
       velocity = Vector3 (Fin vx) (Fin vy) (Fin vz),
       rotation = Euler (Fin rx) (Fin ry) (Fin rz), throttle = Fin th,
       isCrashed = c, lastStatsUpdate = l\<rparr>
     = (\<lparr>position = Vector3 (Fin px) (Fin py) (Fin pz),
         velocity = (if py < 1 / 2
                     then Vector3 (Fin (vx * 0.98 * 0.8)) (Fin 0) (Fin (vz * 0.98 * 0.8))
                     else Vector3 (Fin (vx * 0.98)) (Fin (vy * 0.98)) (Fin (vz * 0.98))),
         rotation = Euler (Fin rx) (Fin ry) (Fin rz), throttle = Fin t,
         isCrashed = c, lastStatsUpdate = l\<rparr>,
        setFromEuler (Euler (Fin rx) (Fin ry) (Fin rz)),
        Vector3 (Fin px) (Fin (if py < 1 / 2 then 1 / 2 else py)) (Fin pz), False)"
proof -
  obtain qa qb qc qd where q: "setFromEuler (Euler (Fin rx) (Fin ry) (Fin rz))
      = Quaternion (Fin qa) (Fin qb) (Fin qc) (Fin qd)"
    using setFromEuler_finite by blast
  show ?thesis
    by (simp add: predict_def Let_def handle_inputs_zero_time [OF assms] q
        integrate_velocity_zero_time ground_physics_def lerp_def v_add_def multiplyScalar_def)
qed


lemma useFrame_flying_zero_time:
  assumes "mounted f" and "delta f = Fin 0"
    and "throttle_input (keys f) (Fin 0) (Fin th) = Fin t"
  shows "fst (useFrame pr f
      \<lparr>position = Vector3 (Fin px) (Fin py) (Fin pz),
       velocity = Vector3 (Fin vx) (Fin vy) (Fin vz),
       rotation = Euler (Fin rx) (Fin ry) (Fin rz), throttle = Fin th,
       isCrashed = False, lastStatsUpdate = l\<rparr>)
    = (let np = Vector3 (Fin px) (Fin (if py < 1 / 2 then 1 / 2 else py)) (Fin pz);
           v2 = (if py < 1 / 2
                 then Vector3 (Fin (vx * 0.98 * 0.8)) (Fin 0) (Fin (vz * 0.98 * 0.8))
                 else Vector3 (Fin (vx * 0.98)) (Fin (vy * 0.98)) (Fin (vz * 0.98)))
       in if detect_collision (obstacles pr) (setFromEuler (Euler (Fin rx) (Fin ry) (Fin rz)))
               np False
          then \<lparr>position = crash_position (Vector3 (Fin px) (Fin py) (Fin pz)) v2,
                velocity = zero3, rotation = Euler (Fin rx) (Fin ry) (Fin rz),
                throttle = Fin t, isCrashed = True, lastStatsUpdate = l\<rparr>
          else \<lparr>position = np, velocity = v2, rotation = Euler (Fin rx) (Fin ry) (Fin rz),
                throttle = Fin t, isCrashed = False,
                lastStatsUpdate = (if Fin 0.1 < elapsedTime f - l then elapsedTime f else l)\<rparr>)"
  using assms(1,2)
  by (simp add: useFrame_def nan_guard_def Let_def flying_logic_fst [OF predict_zero_time [OF assms(3)]])

lemma useFrame_crashed_zero_time:
  assumes "mounted f" and "delta f = Fin 0"
  shows "fst (useFrame pr f
      \<lparr>position = Vector3 (Fin px) (Fin py) (Fin pz),
       velocity = Vector3 (Fin vx) (Fin vy) (Fin vz),
       rotation = R, throttle = th, isCrashed = True, lastStatsUpdate = l\<rparr>)
    = \<lparr>position = Vector3 (Fin px) (Fin (if py < 2 / 10 then 2 / 10 else py)) (Fin pz),
       velocity = (if py < 2 / 10 then zero3 else Vector3 (Fin vx) (Fin vy) (Fin vz)),
       rotation = R, throttle = th, isCrashed = True,
       lastStatsUpdate = (if Fin 0.1 < elapsedTime f - l then elapsedTime f else l)\<rparr>"
  using assms
  by (simp add: useFrame_def nan_guard_def Let_def crashed_logic_def v_add_def multiplyScalar_def
      GRAVITY_def zero3_def)

text \<open>
  C9 as amended. From a state of numbers, let a frame with elapsed time \<open>0\<close> run twice,
  the first run not setting the crash latch. Position, attitude, throttle and status
  after the second run are those after the first. The velocity is also the same when
  the drone is crashed or the frame unmounted; in a flying step it is the velocity after
  the first run multiplied by the drag factor \<open>0.98\<close>.
\<close>

theorem zero_time_steps:
  assumes "delta f = Fin 0" and "finite_refs s"
    and "isCrashed (fst (useFrame pr f s)) = isCrashed s"
  shows "position (fst (useFrame pr f (fst (useFrame pr f s)))) = position (fst (useFrame pr f s))
    \<and> rotation (fst (useFrame pr f (fst (useFrame pr f s)))) = rotation (fst (useFrame pr f s))
    \<and> throttle (fst (useFrame pr f (fst (useFrame pr f s)))) = throttle (fst (useFrame pr f s))
    \<and> isCrashed (fst (useFrame pr f (fst (useFrame pr f s)))) = isCrashed (fst (useFrame pr f s))
    \<and> velocity (fst (useFrame pr f (fst (useFrame pr f s)))) =
        (if mounted f \<and> \<not> isCrashed s
         then multiplyScalar (velocity (fst (useFrame pr f s))) DRAG
         else velocity (fst (useFrame pr f s)))"
proof (cases "mounted f")
  case False
  then show ?thesis by (simp add: useFrame_def)
next
  case m: True
  obtain px py pz vx vy vz rx ry rz th c l where s:
    "s = \<lparr>position = Vector3 (Fin px) (Fin py) (Fin pz),
          velocity = Vector3 (Fin vx) (Fin vy) (Fin vz),
          rotation = Euler (Fin rx) (Fin ry) (Fin rz), throttle = Fin th,
          isCrashed = c, lastStatsUpdate = l\<rparr>"
    using assms(2) by (rule finite_refsE)
  show ?thesis
  proof (cases c)
    case True
    show ?thesis
      using m
      by (simp add: s True useFrame_crashed_zero_time [OF m assms(1)] zero3_def)
  next
    case cf: False
    obtain t where t: "throttle_input (keys f) (Fin 0) (Fin th) = Fin t"
      "throttle_input (keys f) (Fin 0) (Fin t) = Fin t"
      using throttle_input_zero_time by blast
    let ?np = "Vector3 (Fin px) (Fin (if py < 1 / 2 then 1 / 2 else py)) (Fin pz)"
    note one = useFrame_flying_zero_time [OF m assms(1) t(1), of pr px py pz vx vy vz rx ry rz l]
    have nc: "\<not> detect_collision (obstacles pr) (setFromEuler (Euler (Fin rx) (Fin ry) (Fin rz)))
        ?np False"
    proof
      assume d: "detect_collision (obstacles pr)
          (setFromEuler (Euler (Fin rx) (Fin ry) (Fin rz))) ?np False"
      have "isCrashed (fst (useFrame pr f s))"
        using d cf by (simp add: s one Let_def)
      then show False using assms(3) cf by (simp add: s)
    qed
    show ?thesis
    proof (cases "py < 1 / 2")
      case low: True
      have s1: "fst (useFrame pr f s) =
          \<lparr>position = Vector3 (Fin px) (Fin (1 / 2)) (Fin pz),
           velocity = Vector3 (Fin (vx * 0.98 * 0.8)) (Fin 0) (Fin (vz * 0.98 * 0.8)),
           rotation = Euler (Fin rx) (Fin ry) (Fin rz), throttle = Fin t, isCrashed = False,
           lastStatsUpdate = (if Fin 0.1 < elapsedTime f - l then elapsedTime f else l)\<rparr>"
        using nc low cf by (simp add: s one Let_def)
      show ?thesis
        unfolding s1 using m nc low
        by (simp add: s cf useFrame_flying_zero_time [OF m assms(1) t(2)] Let_def
            multiplyScalar_def DRAG_def)
    next
      case high: False
      have s1: "fst (useFrame pr f s) =
          \<lparr>position = Vector3 (Fin px) (Fin py) (Fin pz),
           velocity = Vector3 (Fin (vx * 0.98)) (Fin (vy * 0.98)) (Fin (vz * 0.98)),
           rotation = Euler (Fin rx) (Fin ry) (Fin rz), throttle = Fin t, isCrashed = False,
           lastStatsUpdate = (if Fin 0.1 < elapsedTime f - l then elapsedTime f else l)\<rparr>"
        using nc high cf by (simp add: s one Let_def)
      show ?thesis
        unfolding s1 using m nc high
        by (simp add: s cf useFrame_flying_zero_time [OF m assms(1) t(2)] Let_def
            multiplyScalar_def DRAG_def)
    qed
  qed
qed


lemma drifting_stays_flying:
  "isCrashed (fst (useFrame empty_world still drifting)) = isCrashed drifting"
  by (simp add: step_defs input_defs vector_defs number_defs input_values Let_def)

theorem zero_time_steps_witness:
  "delta still = Fin 0 \<and> finite_refs drifting
   \<and> position (fst (useFrame empty_world still (fst (useFrame empty_world still drifting))))
       = position (fst (useFrame empty_world still drifting))
   \<and> throttle (fst (useFrame empty_world still (fst (useFrame empty_world still drifting))))
       = throttle (fst (useFrame empty_world still drifting))
   \<and> velocity (fst (useFrame empty_world still (fst (useFrame empty_world still drifting))))
       = multiplyScalar (velocity (fst (useFrame empty_world still drifting))) DRAG"
proof -
  have d: "delta still = Fin 0" by (simp add: still_def frame_of_def)
  have fin: "finite_refs drifting"
    by (simp add: finite_refs_def finite3_def drifting_def initial_refs_def zero3_def)
  have fl: "mounted still \<and> \<not> isCrashed drifting"
    by (simp add: still_def frame_of_def drifting_def initial_refs_def)
  show ?thesis
    using d fin fl zero_time_steps [OF d fin drifting_stays_flying] by simp
qed

end
